theory Spec2Isabelle
  imports Main "HOL-Library.Sublist"
begin

section \<open>Python values, exceptions and outcomes\<close>

text \<open>
  The file under verification, \<^verbatim>\<open>gen/footer.py\<close>, extends classes that a generated
  module defines: the tag set \<^verbatim>\<open>MetaDataTags\<close>, the elements \<^verbatim>\<open>StimElement\<close>,
  \<^verbatim>\<open>DataElement\<close>, \<^verbatim>\<open>Probe\<close> and the document \<^verbatim>\<open>Snirf\<close>. Its methods mutate
  \<^verbatim>\<open>self\<close> or the \<^verbatim>\<open>ValidationResult\<close> they are handed, and raise. A method is
  modelled as a function from the state before the call to an outcome that holds the
  state after it, whether the call returned or raised: a mutation made before a
  \<^verbatim>\<open>raise\<close> stays visible to whoever catches the exception.
\<close>

datatype pyval =
    PyNone
  | PyBool bool
  | PyInt int
  | PyStr string
  | PyList "pyval list"

datatype error =
    ValueError string
  | AttributeError string
  | KeyError string
  | TypeError string
  | IndexError

datatype 's outcome =
    Return 's
  | Raise error 's

fun state_after :: "'s outcome \<Rightarrow> 's" where
  "state_after (Return s) = s"
| "state_after (Raise e s) = s"

fun returns :: "'s outcome \<Rightarrow> bool" where
  "returns (Return s) = True"
| "returns (Raise e s) = False"

text \<open>\<^verbatim>\<open>str(type(x))\<close>, which the messages of \<^verbatim>\<open>add\<close> and \<^verbatim>\<open>remove\<close> quote.\<close>

definition apostrophe :: string where
  "apostrophe = [CHR 0x27]"

fun type_name :: "pyval \<Rightarrow> string" where
  "type_name PyNone = ''NoneType''"
| "type_name (PyBool b) = ''bool''"
| "type_name (PyInt i) = ''int''"
| "type_name (PyStr s) = ''str''"
| "type_name (PyList xs) = ''list''"

definition str_type :: "pyval \<Rightarrow> string" where
  "str_type x = ''<class '' @ apostrophe @ type_name x @ apostrophe @ ''>''"

fun is_AttributeError :: "error \<Rightarrow> bool" where
  "is_AttributeError (AttributeError m) = True"
| "is_AttributeError e = False"


section \<open>MetaDataTags: user-defined tags\<close>

text \<open>
  Modelled from the spec: the layout of a \<^verbatim>\<open>MetaDataTags\<close> instance, whose constructor
  is generated code outside \<^verbatim>\<open>gen/footer.py\<close>. The registry of extra names (spec 4.4)
  is the attribute \<^verbatim>\<open>_unspecified_names\<close>, which the constructor assigns like any
  other attribute: it is an entry of the instance dictionary \<^verbatim>\<open>self.__dict__\<close>, the
  same dictionary that \<^verbatim>\<open>add\<close> writes and \<^verbatim>\<open>remove\<close> deletes from. An instance is
  therefore its dictionary \<open>dict\<close>, and reading \<^verbatim>\<open>self._unspecified_names\<close> is a
  lookup in it, which raises \<^verbatim>\<open>AttributeError\<close> when the entry is gone. Values are
  modelled by their content.
\<close>

record MetaDataTags =
  dict :: "string \<rightharpoonup> pyval"

definition get_unspecified_names :: "MetaDataTags \<Rightarrow> error + pyval" where
  "get_unspecified_names self =
     (case dict self ''_unspecified_names'' of
        None \<Rightarrow> Inl (AttributeError ''_unspecified_names'')
      | Some registry \<Rightarrow> Inr registry)"

text \<open>
  \<^verbatim>\<open>d[k] = v\<close> and \<^verbatim>\<open>del d[k]\<close> on a Python dictionary with a string key. The
  assignment has no failing branch; the deletion raises \<^verbatim>\<open>KeyError(k)\<close> when the key
  is missing.
\<close>

definition dict_setitem ::
  "(string \<rightharpoonup> pyval) \<Rightarrow> string \<Rightarrow> pyval \<Rightarrow> error + (string \<rightharpoonup> pyval)" where
  "dict_setitem d k v = Inr (d(k \<mapsto> v))"

definition dict_delitem ::
  "(string \<rightharpoonup> pyval) \<Rightarrow> string \<Rightarrow> error + (string \<rightharpoonup> pyval)" where
  "dict_delitem d k =
     (case d k of
        None \<Rightarrow> Inl (KeyError k)
      | Some v \<Rightarrow> Inr (d(k := None)))"

text \<open>
  \<^verbatim>\<open>name in x\<close> for a string \<open>name\<close>: membership in a list, the substring test on a
  string, \<^verbatim>\<open>TypeError\<close> on a value that is not iterable. \<^verbatim>\<open>x.append(v)\<close> extends
  a list and raises \<^verbatim>\<open>AttributeError\<close> on anything else.
\<close>

fun substring :: "string \<Rightarrow> string \<Rightarrow> bool" where
  "substring xs [] = (xs = [])"
| "substring xs (y # ys) = (prefix xs (y # ys) \<or> substring xs ys)"

fun py_contains :: "string \<Rightarrow> pyval \<Rightarrow> error + bool" where
  "py_contains n (PyList xs) = Inr (PyStr n \<in> set xs)"
| "py_contains n (PyStr s) = Inr (substring n s)"
| "py_contains n v = Inl (TypeError (''argument of type '' @ type_name v @ '' is not iterable''))"

fun py_append :: "pyval \<Rightarrow> pyval \<Rightarrow> error + pyval" where
  "py_append (PyList xs) v = Inr (PyList (xs @ [v]))"
| "py_append x v = Inl (AttributeError ''append'')"

definition cant_set_tag :: string where
  "cant_set_tag =
     ''can'' @ apostrophe @ ''t set tag. You cannot set the required metaDataTags fields '' @
     ''using add() or use protected attributes of MetaDataTags such as '' @
     apostrophe @ ''location'' @ apostrophe @ '' or '' @ apostrophe @ ''filename'' @ apostrophe"

definition no_unspecified_tag :: "string \<Rightarrow> string" where
  "no_unspecified_tag n = ''no unspecified tag '' @ apostrophe @ n @ apostrophe"

definition name_must_be_str :: "pyval \<Rightarrow> string" where
  "name_must_be_str name = ''name must be str, not '' @ str_type name"

text \<open>
  \<^verbatim>\<open>MetaDataTags.add\<close> (lines 5 to 19). The \<^verbatim>\<open>try\<close> block holds the single
  statement \<^verbatim>\<open>self.__dict__[name] = value\<close>; its handler turns an
  \<^verbatim>\<open>AttributeError\<close> into the "can't set tag" one and lets any other exception pass.
  Lines 18 and 19 then read the registry from the dictionary just written, test the
  name against it and append the name to it; an exception raised there leaves the method
  with the assignment of line 15 made.
\<close>

definition MetaDataTags_add ::
  "MetaDataTags \<Rightarrow> pyval \<Rightarrow> pyval \<Rightarrow> MetaDataTags outcome" where
  "MetaDataTags_add self name val =
     (case name of
        PyStr n \<Rightarrow>
          (case dict_setitem (dict self) n val of
             Inl e \<Rightarrow>
               (if is_AttributeError e then Raise (AttributeError cant_set_tag) self
                else Raise e self)
           | Inr d \<Rightarrow>
               (let self1 = self\<lparr>dict := d\<rparr> in
                case get_unspecified_names self1 of
                  Inl e \<Rightarrow> Raise e self1
                | Inr registry \<Rightarrow>
                    (case py_contains n registry of
                       Inl e \<Rightarrow> Raise e self1
                     | Inr listed \<Rightarrow>
                         (if \<not> listed
                          then (case py_append registry (PyStr n) of
                                  Inl e \<Rightarrow> Raise e self1
                                | Inr registry1 \<Rightarrow>
                                    Return (self1\<lparr>dict :=
                                      (dict self1)(''_unspecified_names'' \<mapsto> registry1)\<rparr>))
                          else Return self1))))
      | _ \<Rightarrow> Raise (ValueError (name_must_be_str name)) self)"

text \<open>\<^verbatim>\<open>MetaDataTags.remove\<close> (lines 21 to 31).\<close>

definition MetaDataTags_remove ::
  "MetaDataTags \<Rightarrow> pyval \<Rightarrow> MetaDataTags outcome" where
  "MetaDataTags_remove self name =
     (case name of
        PyStr n \<Rightarrow>
          (case get_unspecified_names self of
             Inl e \<Rightarrow> Raise e self
           | Inr registry \<Rightarrow>
               (case py_contains n registry of
                  Inl e \<Rightarrow> Raise e self
                | Inr listed \<Rightarrow>
                    (if \<not> listed
                     then Raise (AttributeError (no_unspecified_tag n)) self
                     else (case dict_delitem (dict self) n of
                             Inl e \<Rightarrow> Raise e self
                           | Inr d \<Rightarrow> Return (self\<lparr>dict := d\<rparr>)))))
      | _ \<Rightarrow> Raise (ValueError (name_must_be_str name)) self)"

text \<open>
  A caller's sequence of \<^verbatim>\<open>add\<close> and \<^verbatim>\<open>remove\<close> calls on one instance, each
  exception caught by the caller, so that the next call sees the state the previous one
  left.
\<close>

datatype tag_op =
    Add pyval pyval
  | Remove pyval

fun op_name :: "tag_op \<Rightarrow> pyval" where
  "op_name (Add name val) = name"
| "op_name (Remove name) = name"

fun apply_tag_op :: "MetaDataTags \<Rightarrow> tag_op \<Rightarrow> MetaDataTags outcome" where
  "apply_tag_op self (Add name val) = MetaDataTags_add self name val"
| "apply_tag_op self (Remove name) = MetaDataTags_remove self name"

fun run_tag_ops :: "MetaDataTags \<Rightarrow> tag_op list \<Rightarrow> MetaDataTags" where
  "run_tag_ops self [] = self"
| "run_tag_ops self (x # xs) = run_tag_ops (state_after (apply_tag_op self x)) xs"


section \<open>Validation results\<close>

text \<open>
  Modelled from the spec: \<^verbatim>\<open>ValidationResult\<close> and its method \<^verbatim>\<open>_add\<close>, which are
  defined outside \<^verbatim>\<open>gen/footer.py\<close>. A result is the ordered list of its issues, each
  a pair of a location and a code (spec 6). Accumulation is de-duplicated (spec 2, 4.5):
  a rule that runs first pre-empts a later verdict for the same location, the later code
  being dropped. \<^verbatim>\<open>Probe._validate\<close> relies on exactly this: "duplicate names cannot
  be added to the issues list". So \<^verbatim>\<open>_add\<close> appends the issue unless the location has
  one already.
\<close>

type_synonym ValidationResult = "(string \<times> string) list"

definition locations :: "ValidationResult \<Rightarrow> string list" where
  "locations result = map fst result"

definition ValidationResult_add ::
  "ValidationResult \<Rightarrow> string \<Rightarrow> string \<Rightarrow> ValidationResult" where
  "ValidationResult_add result location key =
     (if location \<in> set (locations result) then result else result @ [(location, key)])"

text \<open>The codes a result holds for one location, in the order they were added.\<close>

definition issues_at :: "ValidationResult \<Rightarrow> string \<Rightarrow> string list" where
  "issues_at result location = map snd (filter (\<lambda>issue. fst issue = location) result)"

text \<open>A sequence of \<^verbatim>\<open>_add\<close> calls on one result, in order.\<close>

fun add_all :: "(string \<times> string) list \<Rightarrow> ValidationResult \<Rightarrow> ValidationResult" where
  "add_all [] result = result"
| "add_all ((location, key) # reports) result =
     add_all reports (ValidationResult_add result location key)"

text \<open>
  Modelled from the spec: \<^verbatim>\<open>super()._validate(result)\<close>, the rule pass of the generated
  base class. A rule pass appends (location, code) pairs to the result it is handed
  (spec 4.5); which pairs the base pass reports for a node is not decided in
  \<^verbatim>\<open>gen/footer.py\<close>, so they are a parameter \<open>base\<close>, reported in order.
\<close>

definition super_validate ::
  "(string \<times> string) list \<Rightarrow> ValidationResult \<Rightarrow> ValidationResult" where
  "super_validate base result = add_all base result"


section \<open>Arrays\<close>

text \<open>
  A numpy array, as far as the rules look at it: its shape. \<^verbatim>\<open>a.size\<close> is the number
  of elements, the product of the dimensions; \<^verbatim>\<open>np.shape(a)[i]\<close> indexes the shape
  tuple and raises \<^verbatim>\<open>IndexError\<close> when the array has no such dimension.
\<close>

datatype ndarray = NDArray (shape: "nat list")

definition ndarray_size :: "ndarray \<Rightarrow> nat" where
  "ndarray_size a = prod_list (shape a)"

definition shape_index :: "ndarray \<Rightarrow> nat \<Rightarrow> error + nat" where
  "shape_index a i = (if i < length (shape a) then Inr (shape a ! i) else Inl IndexError)"


section \<open>Elements and their rules\<close>

record MeasurementListElement =
  ml_location :: string
  sourceIndex :: "int option"
  detectorIndex :: "int option"
  wavelengthIndex :: "int option"

record StimElement =
  stim_location :: string
  stim_data :: "ndarray option"
  dataLabels :: "ndarray option"

record DataElement =
  data_location :: string
  time :: "ndarray option"
  dataTimeSeries :: "ndarray option"
  measurementList :: "MeasurementListElement list"

record Probe =
  probe_location :: string
  sourceLabels :: "ndarray option"
  detectorLabels :: "ndarray option"
  wavelengths :: "ndarray option"
  sourcePos2D :: "ndarray option"
  detectorPos2D :: "ndarray option"
  sourcePos3D :: "ndarray option"
  detectorPos3D :: "ndarray option"
  coordinateSystem :: "string option"
  coordinateSystemDescription :: "string option"

record NirsElement =
  probe :: "Probe option"
  data :: "DataElement list"

record Snirf =
  nirs :: "NirsElement list"

text \<open>
  \<^verbatim>\<open>StimElement._validate\<close> (lines 39 to 47): the base pass, then, when data and
  labels are both present, the comparison of the column count with the label count
  inside a \<^verbatim>\<open>try\<close> whose handler catches \<^verbatim>\<open>IndexError\<close>.
\<close>

definition StimElement_validate ::
  "(string \<times> string) list \<Rightarrow> StimElement \<Rightarrow> ValidationResult \<Rightarrow> ValidationResult outcome" where
  "StimElement_validate base self result =
     (let result1 = super_validate base result in
      case (stim_data self, dataLabels self) of
        (Some d, Some l) \<Rightarrow>
          (case shape_index d 1 of
             Inr columns \<Rightarrow>
               (if columns \<noteq> ndarray_size l
                then Return (ValidationResult_add result1
                               (stim_location self @ ''/dataLabels'') ''INVALID_STIM_DATALABELS'')
                else Return result1)
           | Inl e \<Rightarrow>
               (if e = IndexError
                then Return (ValidationResult_add result1
                               (stim_location self @ ''/data'') ''INVALID_DATASET_SHAPE'')
                else Raise e result1))
      | _ \<Rightarrow> Return result1)"

text \<open>
  \<^verbatim>\<open>DataElement._validate\<close> (lines 70 to 78): the base pass, then, when time and
  series are both present, the two comparisons. Neither \<^verbatim>\<open>np.shape(...)[0]\<close> nor
  \<^verbatim>\<open>np.shape(...)[1]\<close> is guarded, so an \<^verbatim>\<open>IndexError\<close> leaves the method.
\<close>

definition DataElement_validate ::
  "(string \<times> string) list \<Rightarrow> DataElement \<Rightarrow> ValidationResult \<Rightarrow> ValidationResult outcome" where
  "DataElement_validate base self result =
     (let result1 = super_validate base result in
      case (time self, dataTimeSeries self) of
        (Some t, Some d) \<Rightarrow>
          (case shape_index d 0 of
             Inl e \<Rightarrow> Raise e result1
           | Inr rows \<Rightarrow>
               (let result2 =
                  (if ndarray_size t \<noteq> rows
                   then ValidationResult_add result1 (data_location self @ ''/time'') ''INVALID_TIME''
                   else result1)
                in case shape_index d 1 of
                     Inl e \<Rightarrow> Raise e result2
                   | Inr columns \<Rightarrow>
                       (if length (measurementList self) \<noteq> columns
                        then Return (ValidationResult_add result2
                                       (data_location self) ''INVALID_MEASUREMENTLIST'')
                        else Return result2)))
      | _ \<Rightarrow> Return result1)"

text \<open>
  \<^verbatim>\<open>Probe._validate\<close> (lines 87 to 131), in three rules followed by the base pass.

  The first rule (lines 89 to 101) reports on \<^verbatim>\<open>sourceLabels\<close>. The helpers
  \<^verbatim>\<open>_create_dataset_string_array\<close> and \<^verbatim>\<open>_validate_string_array\<close> are not in
  \<^verbatim>\<open>gen/footer.py\<close>; together they are the parameter \<open>check\<close>, which yields the code
  of a present dataset or \<open>None\<close> where the conversion raises \<^verbatim>\<open>ValueError\<close>.
\<close>

definition sourceLabels_rule ::
  "(ndarray \<Rightarrow> string option) \<Rightarrow> Probe \<Rightarrow> ValidationResult \<Rightarrow> ValidationResult" where
  "sourceLabels_rule check self result =
     (case sourceLabels self of
        None \<Rightarrow>
          ValidationResult_add result (probe_location self @ ''/sourceLabels'')
            ''OPTIONAL_DATASET_MISSING''
      | Some dataset \<Rightarrow>
          (case check dataset of
             Some code \<Rightarrow>
               ValidationResult_add result (probe_location self @ ''/sourceLabels'') code
           | None \<Rightarrow>
               ValidationResult_add result (probe_location self @ ''/sourceLabels'')
                 ''INVALID_DATASET_TYPE''))"

text \<open>Lines 103 to 121: the position arrays. \<^verbatim>\<open>int(b)\<close> is \<open>of_bool b\<close>.\<close>

definition positions_rule :: "Probe \<Rightarrow> ValidationResult \<Rightarrow> ValidationResult" where
  "positions_rule self result =
     (let s2 = (sourcePos2D self \<noteq> None);
          d2 = (detectorPos2D self \<noteq> None);
          s3 = (sourcePos3D self \<noteq> None);
          d3 = (detectorPos3D self \<noteq> None);
          loc = probe_location self
      in if s2 \<and> d2 then
           ValidationResult_add
            (ValidationResult_add
              (ValidationResult_add
                (ValidationResult_add result (loc @ ''/sourcePos2D'') ''OK'')
                (loc @ ''/detectorPos2D'') ''OK'')
              (loc @ ''/sourcePos3D'') ''OPTIONAL_DATASET_MISSING'')
            (loc @ ''/detectorPos3D'') ''OPTIONAL_DATASET_MISSING''
         else if s3 \<and> d3 then
           ValidationResult_add
            (ValidationResult_add
              (ValidationResult_add
                (ValidationResult_add result (loc @ ''/sourcePos2D'') ''OPTIONAL_DATASET_MISSING'')
                (loc @ ''/detectorPos2D'') ''OPTIONAL_DATASET_MISSING'')
              (loc @ ''/sourcePos3D'') ''OK'')
            (loc @ ''/detectorPos3D'') ''OK''
         else
           ValidationResult_add
            (ValidationResult_add
              (ValidationResult_add
                (ValidationResult_add result (loc @ ''/sourcePos2D'')
                  ([''REQUIRED_DATASET_MISSING'', ''OK''] ! of_bool s2))
                (loc @ ''/detectorPos2D'')
                ([''REQUIRED_DATASET_MISSING'', ''OK''] ! of_bool d2))
              (loc @ ''/sourcePos3D'')
              ([''REQUIRED_DATASET_MISSING'', ''OK''] ! of_bool s3))
            (loc @ ''/detectorPos3D'')
            ([''REQUIRED_DATASET_MISSING'', ''OK''] ! of_bool d3))"

text \<open>
  Lines 123 to 127: the coordinate system. The list of recognized names,
  \<^verbatim>\<open>_RECOGNIZED_COORDINATE_SYSTEM_NAMES\<close>, is a constant of the generated module and
  a parameter here.
\<close>

definition coordinateSystem_rule ::
  "string list \<Rightarrow> Probe \<Rightarrow> ValidationResult \<Rightarrow> ValidationResult" where
  "coordinateSystem_rule recognized self result =
     (case coordinateSystem self of
        None \<Rightarrow> result
      | Some name \<Rightarrow>
          (if name \<notin> set recognized then
             (let result1 = ValidationResult_add result
                              (probe_location self @ ''/coordinateSystem'')
                              ''UNRECOGNIZED_COORDINATE_SYSTEM''
              in case coordinateSystemDescription self of
                   None \<Rightarrow>
                     ValidationResult_add result1
                       (probe_location self @ ''/coordinateSystemDescription'')
                       ''NO_COORDINATE_SYSTEM_DESCRIPTION''
                 | Some description \<Rightarrow> result1)
           else result))"

definition Probe_validate ::
  "(string \<times> string) list \<Rightarrow> (ndarray \<Rightarrow> string option) \<Rightarrow> string list \<Rightarrow>
   Probe \<Rightarrow> ValidationResult \<Rightarrow> ValidationResult" where
  "Probe_validate base check recognized self result =
     super_validate base
       (coordinateSystem_rule recognized self
         (positions_rule self
           (sourceLabels_rule check self result)))"


section \<open>The document\<close>

text \<open>
  \<^verbatim>\<open>Snirf._validate\<close> (lines 230 to 259). The three bounds are taken from the
  probe: the first dimension of \<^verbatim>\<open>sourceLabels\<close>, and the sizes of
  \<^verbatim>\<open>detectorLabels\<close> and \<^verbatim>\<open>wavelengths\<close>, each 0 for an absent array.
\<close>

definition lenSourceLabels :: "Probe \<Rightarrow> error + nat" where
  "lenSourceLabels p =
     (case sourceLabels p of
        Some labels \<Rightarrow> shape_index labels 0
      | None \<Rightarrow> Inr 0)"

definition lenDetectorLabels :: "Probe \<Rightarrow> nat" where
  "lenDetectorLabels p =
     (case detectorLabels p of
        Some labels \<Rightarrow> ndarray_size labels
      | None \<Rightarrow> 0)"

definition lenWavelengths :: "Probe \<Rightarrow> nat" where
  "lenWavelengths p =
     (case wavelengths p of
        Some w \<Rightarrow> ndarray_size w
      | None \<Rightarrow> 0)"

text \<open>The body of the innermost loop (lines 251 to 259), for one entry.\<close>

definition check_indices ::
  "nat \<Rightarrow> nat \<Rightarrow> nat \<Rightarrow> MeasurementListElement \<Rightarrow> ValidationResult \<Rightarrow> ValidationResult" where
  "check_indices ls ld lw ml result =
     (let result1 =
        (case sourceIndex ml of
           None \<Rightarrow> result
         | Some i \<Rightarrow>
             (if i > int ls
              then ValidationResult_add result (ml_location ml @ ''/sourceIndex'')
                     ''INVALID_SOURCE_INDEX''
              else result));
          result2 =
        (case detectorIndex ml of
           None \<Rightarrow> result1
         | Some i \<Rightarrow>
             (if i > int ld
              then ValidationResult_add result1 (ml_location ml @ ''/detectorIndex'')
                     ''INVALID_DETECTOR_INDEX''
              else result1))
      in case wavelengthIndex ml of
           None \<Rightarrow> result2
         | Some i \<Rightarrow>
             (if i > int lw
              then ValidationResult_add result2 (ml_location ml @ ''/wavelengthIndex'')
                     ''INVALID_WAVELENGTH_INDEX''
              else result2))"

text \<open>The loop \<^verbatim>\<open>for ml in data.measurementList\<close>.\<close>

fun for_measurementList ::
  "nat \<Rightarrow> nat \<Rightarrow> nat \<Rightarrow> MeasurementListElement list \<Rightarrow> ValidationResult \<Rightarrow> ValidationResult" where
  "for_measurementList ls ld lw [] result = result"
| "for_measurementList ls ld lw (ml # mls) result =
     for_measurementList ls ld lw mls (check_indices ls ld lw ml result)"

text \<open>The loop \<^verbatim>\<open>for data in nirs.data\<close>.\<close>

fun for_data ::
  "nat \<Rightarrow> nat \<Rightarrow> nat \<Rightarrow> DataElement list \<Rightarrow> ValidationResult \<Rightarrow> ValidationResult" where
  "for_data ls ld lw [] result = result"
| "for_data ls ld lw (d # ds) result =
     for_data ls ld lw ds (for_measurementList ls ld lw (measurementList d) result)"

text \<open>
  The loop \<^verbatim>\<open>for nirs in self.nirs\<close>: an element whose probe is absent is skipped;
  \<^verbatim>\<open>sourceLabels.shape[0]\<close> raises on an array without dimensions.
\<close>

fun for_nirs :: "NirsElement list \<Rightarrow> ValidationResult \<Rightarrow> ValidationResult outcome" where
  "for_nirs [] result = Return result"
| "for_nirs (n # ns) result =
     (case probe n of
        None \<Rightarrow> for_nirs ns result
      | Some p \<Rightarrow>
          (case lenSourceLabels p of
             Inl e \<Rightarrow> Raise e result
           | Inr ls \<Rightarrow>
               for_nirs ns
                 (for_data ls (lenDetectorLabels p) (lenWavelengths p) (data n) result)))"

definition Snirf_validate ::
  "(string \<times> string) list \<Rightarrow> Snirf \<Rightarrow> ValidationResult \<Rightarrow> ValidationResult outcome" where
  "Snirf_validate base self result = for_nirs (nirs self) (super_validate base result)"

text \<open>
  The reports that the cross-reference pass makes, as lists in the order of the loops:
  for one entry, for one element of \<^verbatim>\<open>nirs\<close>, and for the document. They serve to
  state what the loops add; \<open>for_nirs_reports\<close> below shows that the loops make exactly
  these \<^verbatim>\<open>_add\<close> calls.
\<close>

definition index_reports ::
  "nat \<Rightarrow> nat \<Rightarrow> nat \<Rightarrow> MeasurementListElement \<Rightarrow> (string \<times> string) list" where
  "index_reports ls ld lw ml =
     (case sourceIndex ml of
        None \<Rightarrow> []
      | Some i \<Rightarrow>
          if i > int ls then [(ml_location ml @ ''/sourceIndex'', ''INVALID_SOURCE_INDEX'')]
          else [])
     @ (case detectorIndex ml of
          None \<Rightarrow> []
        | Some i \<Rightarrow>
            if i > int ld then [(ml_location ml @ ''/detectorIndex'', ''INVALID_DETECTOR_INDEX'')]
            else [])
     @ (case wavelengthIndex ml of
          None \<Rightarrow> []
        | Some i \<Rightarrow>
            if i > int lw
            then [(ml_location ml @ ''/wavelengthIndex'', ''INVALID_WAVELENGTH_INDEX'')]
            else [])"

definition data_reports ::
  "nat \<Rightarrow> nat \<Rightarrow> nat \<Rightarrow> DataElement list \<Rightarrow> (string \<times> string) list" where
  "data_reports ls ld lw ds =
     concat (map (\<lambda>d. concat (map (index_reports ls ld lw) (measurementList d))) ds)"

definition nirs_reports :: "NirsElement \<Rightarrow> (string \<times> string) list" where
  "nirs_reports n =
     (case probe n of
        None \<Rightarrow> []
      | Some p \<Rightarrow>
          (case lenSourceLabels p of
             Inl e \<Rightarrow> []
           | Inr ls \<Rightarrow> data_reports ls (lenDetectorLabels p) (lenWavelengths p) (data n)))"

text \<open>No probe of the document has a \<^verbatim>\<open>sourceLabels\<close> array without dimensions.\<close>

definition sourceLabels_indexable :: "NirsElement list \<Rightarrow> bool" where
  "sourceLabels_indexable ns =
     list_all (\<lambda>n. case probe n of
                     None \<Rightarrow> True
                   | Some p \<Rightarrow> (case lenSourceLabels p of Inl e \<Rightarrow> False | Inr ls \<Rightarrow> True)) ns"


text \<open>
  The backing store behind \<^verbatim>\<open>self._h\<close> is an external library (spec 1, 6), of which
  \<^verbatim>\<open>__getitem__\<close> uses two operations: the membership test \<^verbatim>\<open>key in self._h\<close> and
  the item access \<^verbatim>\<open>self._h[key]\<close>. Neither is in \<^verbatim>\<open>gen/footer.py\<close> and the spec
  does not say what they answer, so both are parameters of a store, each free to return
  or to raise, and nothing is assumed to relate them. \<^verbatim>\<open>self._h\<close> is the empty
  dictionary \<^verbatim>\<open>{}\<close> until a store is attached.
\<close>

record ('k, 'e) store =
  store_contains :: "'k \<Rightarrow> error + bool"
  store_getitem :: "'k \<Rightarrow> error + 'e"

datatype ('k, 'e) handle =
    EmptyDict
  | Store "('k, 'e) store"

text \<open>
  \<^verbatim>\<open>Snirf.__getitem__\<close> (lines 223 to 228). The result is the entry, or \<open>None\<close> for
  Python's \<^verbatim>\<open>None\<close>: the inner \<^verbatim>\<open>if\<close> has no \<^verbatim>\<open>else\<close>, so a missing key falls off
  the end of the method. The method has no handler: what the store raises leaves it.
\<close>

definition Snirf_getitem :: "('k, 'e) handle \<Rightarrow> 'k \<Rightarrow> error + 'e option" where
  "Snirf_getitem h key =
     (if h \<noteq> EmptyDict
      then (case h of
              Store f \<Rightarrow>
                (case store_contains f key of
                   Inl e \<Rightarrow> Inl e
                 | Inr found \<Rightarrow>
                     (if found
                      then (case store_getitem f key of
                              Inl e \<Rightarrow> Inl e
                            | Inr entry \<Rightarrow> Inr (Some entry))
                      else Inr None))
            | EmptyDict \<Rightarrow> Inr None)
      else Inr None)"


section \<open>Properties of the tag set\<close>

lemma add_not_str_raises:
  "(\<forall>n. name \<noteq> PyStr n) \<Longrightarrow>
   MetaDataTags_add self name val = Raise (ValueError (name_must_be_str name)) self"
  by (cases name) (simp_all add: MetaDataTags_add_def)

text \<open>The statement guarded by the handler of \<^verbatim>\<open>add\<close> never raises.\<close>

lemma dict_setitem_returns: "dict_setitem d k v \<noteq> Inl e"
  by (simp add: dict_setitem_def)

text \<open>
  \<^verbatim>\<open>add\<close> with a string name, on an instance whose registry is a list and for a name
  other than the registry's own.
\<close>

lemma add_str_returns:
  assumes "dict self ''_unspecified_names'' = Some (PyList names)"
    and "n \<noteq> ''_unspecified_names''"
  shows "MetaDataTags_add self (PyStr n) val =
     Return (self\<lparr>dict := (dict self)(n \<mapsto> val, ''_unspecified_names'' \<mapsto>
                PyList (if PyStr n \<in> set names then names else names @ [PyStr n]))\<rparr>)"
proof (cases "PyStr n \<in> set names")
  case True
  have "(dict self)(n \<mapsto> val) =
        (dict self)(n \<mapsto> val, ''_unspecified_names'' \<mapsto> PyList names)"
    using assms by (auto simp: fun_eq_iff)
  with True assms show ?thesis
    by (simp add: MetaDataTags_add_def dict_setitem_def get_unspecified_names_def Let_def)
next
  case False
  with assms show ?thesis
    by (simp add: MetaDataTags_add_def dict_setitem_def get_unspecified_names_def Let_def)
qed

lemma add_registry_prefix:
  assumes "dict self ''_unspecified_names'' = Some (PyList names)"
    and "name \<noteq> PyStr ''_unspecified_names''"
  shows "\<exists>names'. dict (state_after (MetaDataTags_add self name val)) ''_unspecified_names''
                    = Some (PyList names') \<and> prefix names names'"
proof (cases name)
  case (PyStr n)
  with assms(2) have "n \<noteq> ''_unspecified_names''" by simp
  from add_str_returns [OF assms(1) this, of val] PyStr show ?thesis by simp
qed (simp_all add: MetaDataTags_add_def assms(1))

lemma remove_registry_same:
  assumes "name \<noteq> PyStr ''_unspecified_names''"
  shows "dict (state_after (MetaDataTags_remove self name)) ''_unspecified_names''
           = dict self ''_unspecified_names''"
proof (cases name)
  case (PyStr n)
  with assms have "n \<noteq> ''_unspecified_names''" by simp
  with PyStr show ?thesis
    by (simp add: MetaDataTags_remove_def dict_delitem_def get_unspecified_names_def
        split: option.splits sum.splits)
qed (simp_all add: MetaDataTags_remove_def)

lemma apply_tag_op_registry_prefix:
  assumes "dict self ''_unspecified_names'' = Some (PyList names)"
    and "op_name x \<noteq> PyStr ''_unspecified_names''"
  shows "\<exists>names'. dict (state_after (apply_tag_op self x)) ''_unspecified_names''
                    = Some (PyList names') \<and> prefix names names'"
proof (cases x)
  case (Add name val)
  with assms add_registry_prefix [of self names name val] show ?thesis by simp
next
  case (Remove name)
  with assms remove_registry_same [of name self] show ?thesis by simp
qed

lemma run_tag_ops_registry_prefix:
  assumes "dict self ''_unspecified_names'' = Some (PyList names)"
    and "list_all (\<lambda>x. op_name x \<noteq> PyStr ''_unspecified_names'') xs"
  shows "\<exists>names'. dict (run_tag_ops self xs) ''_unspecified_names'' = Some (PyList names')
                  \<and> prefix names names'"
  using assms
proof (induction xs arbitrary: self names)
  case Nil
  then show ?case by simp
next
  case (Cons x xs)
  from Cons.prems obtain names1 where
    s1: "dict (state_after (apply_tag_op self x)) ''_unspecified_names'' = Some (PyList names1)"
    and p1: "prefix names names1"
    using apply_tag_op_registry_prefix [of self names x] by auto
  from Cons.prems have "list_all (\<lambda>x. op_name x \<noteq> PyStr ''_unspecified_names'') xs" by simp
  from Cons.IH [OF s1 this] obtain names' where
    "dict (run_tag_ops (state_after (apply_tag_op self x)) xs) ''_unspecified_names''
       = Some (PyList names')" and "prefix names1 names'"
    by auto
  with p1 show ?case by (auto intro: prefix_order.trans)
qed

text \<open>
  Writing a value that is not iterable over the registry: line 15 stores it, and the test
  of line 18 raises \<^verbatim>\<open>TypeError\<close> on it.
\<close>

lemma add_registry_not_iterable:
  "MetaDataTags_add \<lparr>dict = d\<rparr> (PyStr ''_unspecified_names'') (PyInt 5) =
     Raise (TypeError ''argument of type int is not iterable'')
       \<lparr>dict = d(''_unspecified_names'' \<mapsto> PyInt 5)\<rparr>"
  by (simp add: MetaDataTags_add_def dict_setitem_def get_unspecified_names_def Let_def)

text \<open>
  When \<^verbatim>\<open>remove\<close> returns, on an instance whose registry is a list: the name is
  listed and still has a value.
\<close>

lemma remove_returns_iff:
  assumes "dict self ''_unspecified_names'' = Some (PyList names)"
  shows "returns (MetaDataTags_remove self name) \<longleftrightarrow>
     (\<exists>n. name = PyStr n \<and> PyStr n \<in> set names \<and> n \<in> dom (dict self))"
  using assms
  by (cases name)
     (auto simp: MetaDataTags_remove_def dict_delitem_def get_unspecified_names_def
      split: option.splits)

text \<open>
  C1. The claim: \<^verbatim>\<open>add(name, value)\<close> raises for a name that is not a string and for
  a reserved name; \<^verbatim>\<open>add("location", x)\<close> fails and leaves the tag set unchanged.
  The first half holds (\<open>add_not_str_raises\<close>). The second does not: the guarded
  statement is an item assignment on the instance dictionary, which raises nothing for a
  string key, so the handler is never entered (\<open>dict_setitem_returns\<close>). On every
  instance whose registry is a list, and for every value, the call
  \<^verbatim>\<open>add("location", x)\<close> returns, stores \<open>x\<close> under \<^verbatim>\<open>location\<close> and registers
  the name.
\<close>

theorem add_location_returns:
  "MetaDataTags_add \<lparr>dict = d(''_unspecified_names'' \<mapsto> PyList names)\<rparr>
       (PyStr ''location'') x =
     Return \<lparr>dict = d(''location'' \<mapsto> x, ''_unspecified_names'' \<mapsto>
                PyList (if PyStr ''location'' \<in> set names then names
                        else names @ [PyStr ''location'']))\<rparr>
   \<and> dict (state_after (MetaDataTags_add \<lparr>dict = d(''_unspecified_names'' \<mapsto> PyList names)\<rparr>
         (PyStr ''location'') x)) ''location'' = Some x
   \<and> (\<exists>names'. dict (state_after (MetaDataTags_add
            \<lparr>dict = d(''_unspecified_names'' \<mapsto> PyList names)\<rparr>
            (PyStr ''location'') x)) ''_unspecified_names'' = Some (PyList names')
         \<and> PyStr ''location'' \<in> set names')"
proof -
  have "MetaDataTags_add \<lparr>dict = d(''_unspecified_names'' \<mapsto> PyList names)\<rparr>
       (PyStr ''location'') x =
     Return (\<lparr>dict = d(''_unspecified_names'' \<mapsto> PyList names)\<rparr>\<lparr>dict :=
       (dict \<lparr>dict = d(''_unspecified_names'' \<mapsto> PyList names)\<rparr>)
         (''location'' \<mapsto> x, ''_unspecified_names'' \<mapsto>
            PyList (if PyStr ''location'' \<in> set names then names
                    else names @ [PyStr ''location'']))\<rparr>)"
    by (rule add_str_returns) simp_all
  moreover have "(d(''_unspecified_names'' \<mapsto> PyList names))(''location'' \<mapsto> x,
        ''_unspecified_names'' \<mapsto> v) = d(''location'' \<mapsto> x, ''_unspecified_names'' \<mapsto> v)" for v
    by (auto simp: fun_eq_iff)
  ultimately show ?thesis by simp
qed

text \<open>
  C2. The claim: \<^verbatim>\<open>remove(name)\<close> fails exactly when the name is not a registered
  extra name, so that after \<^verbatim>\<open>add("customTag", 5)\<close> a first
  \<^verbatim>\<open>remove("customTag")\<close> succeeds and a second one is rejected with "no unspecified
  tag". On the code, for every instance whose registry is a list, the first removal
  deletes the value and leaves the name in \<^verbatim>\<open>_unspecified_names\<close>; the second one
  passes the registry test and raises \<^verbatim>\<open>KeyError\<close> at \<^verbatim>\<open>del self.__dict__[name]\<close>,
  with the name still registered.
\<close>

theorem remove_twice_raises_KeyError:
  "(let s1 = state_after (MetaDataTags_add
               \<lparr>dict = d(''_unspecified_names'' \<mapsto> PyList names)\<rparr>
               (PyStr ''customTag'') (PyInt 5));
        s2 = state_after (MetaDataTags_remove s1 (PyStr ''customTag''))
    in MetaDataTags_add \<lparr>dict = d(''_unspecified_names'' \<mapsto> PyList names)\<rparr>
         (PyStr ''customTag'') (PyInt 5) = Return s1
       \<and> MetaDataTags_remove s1 (PyStr ''customTag'') = Return s2
       \<and> MetaDataTags_remove s2 (PyStr ''customTag'') = Raise (KeyError ''customTag'') s2
       \<and> (\<exists>names2. dict s2 ''_unspecified_names'' = Some (PyList names2)
             \<and> PyStr ''customTag'' \<in> set names2)
       \<and> dict s2 ''customTag'' = None)"
  by (simp add: MetaDataTags_add_def MetaDataTags_remove_def dict_setitem_def
      dict_delitem_def get_unspecified_names_def Let_def)


text \<open>
  C8, as stated: a \<^verbatim>\<open>remove\<close> that returns never takes its name out of the registry,
  and the registry only grows under any sequence of \<^verbatim>\<open>add\<close> and \<^verbatim>\<open>remove\<close>
  calls. The registry is itself an entry of the dictionary these calls write: on an
  instance with the registered tag \<^verbatim>\<open>a\<close>, \<^verbatim>\<open>add("_unspecified_names", [])\<close>
  replaces the registry, which then lists \<^verbatim>\<open>_unspecified_names\<close> and no longer
  \<^verbatim>\<open>a\<close>; and a following \<^verbatim>\<open>remove("_unspecified_names")\<close> returns and deletes the
  registry.
\<close>

theorem registry_replaced_by_add:
  "dict (run_tag_ops
           \<lparr>dict = [''_unspecified_names'' \<mapsto> PyList [PyStr ''a''], ''a'' \<mapsto> PyInt 1]\<rparr>
           [Add (PyStr ''_unspecified_names'') (PyList [])]) ''_unspecified_names''
     = Some (PyList [PyStr ''_unspecified_names''])
   \<and> PyStr ''a'' \<in> set [PyStr ''a'']
   \<and> PyStr ''a'' \<notin> set [PyStr ''_unspecified_names'']
   \<and> MetaDataTags_remove
         \<lparr>dict = [''_unspecified_names'' \<mapsto> PyList [PyStr ''_unspecified_names''],
                  ''a'' \<mapsto> PyInt 1]\<rparr>
         (PyStr ''_unspecified_names'')
       = Return \<lparr>dict = [''a'' \<mapsto> PyInt 1]\<rparr>"
  by (auto simp: MetaDataTags_add_def MetaDataTags_remove_def dict_setitem_def
      dict_delitem_def get_unspecified_names_def Let_def fun_eq_iff)

text \<open>
  C8, amended: on an instance whose registry is a list, a \<^verbatim>\<open>remove(name)\<close> that
  returns, for a name other than \<^verbatim>\<open>_unspecified_names\<close>, has deleted the value stored
  under the name and has left the registry as it was, so the name is still registered;
  and over any sequence of \<^verbatim>\<open>add\<close> and \<^verbatim>\<open>remove\<close> calls none of which names
  \<^verbatim>\<open>_unspecified_names\<close>, the registry is only ever extended at its end.
\<close>

theorem remove_never_unregisters:
  assumes "dict self ''_unspecified_names'' = Some (PyList names)"
    and "name \<noteq> PyStr ''_unspecified_names''"
    and "MetaDataTags_remove self name = Return self'"
    and "list_all (\<lambda>x. op_name x \<noteq> PyStr ''_unspecified_names'') ops"
  shows "\<exists>n names'. name = PyStr n \<and> dict self n \<noteq> None \<and> dict self' n = None
           \<and> dict self' ''_unspecified_names'' = Some (PyList names)
           \<and> PyStr n \<in> set names
           \<and> dict (run_tag_ops self' ops) ''_unspecified_names'' = Some (PyList names')
           \<and> prefix names names'
           \<and> PyStr n \<in> set names'"
proof -
  from assms(1,3) obtain n where n: "name = PyStr n" "PyStr n \<in> set names"
      "dict self n \<noteq> None" "self' = self\<lparr>dict := (dict self)(n := None)\<rparr>"
    by (cases name)
       (auto simp: MetaDataTags_remove_def dict_delitem_def get_unspecified_names_def
        split: if_splits option.splits)
  from n(1) assms(2) have "n \<noteq> ''_unspecified_names''" by simp
  with n(4) assms(1) have r: "dict self' ''_unspecified_names'' = Some (PyList names)"
    by simp
  from run_tag_ops_registry_prefix [OF r assms(4)] obtain names' where
    names': "dict (run_tag_ops self' ops) ''_unspecified_names'' = Some (PyList names')"
      "prefix names names'"
    by auto
  from names'(2) n(2) have "PyStr n \<in> set names'"
    using set_mono_prefix by blast
  with n r names' show ?thesis by simp
qed

theorem remove_never_unregisters_witness:
  "MetaDataTags_remove
     \<lparr>dict = [''_unspecified_names'' \<mapsto> PyList [PyStr ''customTag''],
              ''customTag'' \<mapsto> PyInt 5]\<rparr>
     (PyStr ''customTag'')
     = Return \<lparr>dict = [''_unspecified_names'' \<mapsto> PyList [PyStr ''customTag'']]\<rparr>
   \<and> (\<exists>names'. dict (run_tag_ops
          \<lparr>dict = [''_unspecified_names'' \<mapsto> PyList [PyStr ''customTag'']]\<rparr>
          [Add (PyStr ''other'') PyNone, Remove (PyStr ''other''), Remove (PyStr ''customTag'')])
          ''_unspecified_names'' = Some (PyList names')
        \<and> PyStr ''customTag'' \<in> set names')"
proof -
  have r: "MetaDataTags_remove
     \<lparr>dict = [''_unspecified_names'' \<mapsto> PyList [PyStr ''customTag''],
              ''customTag'' \<mapsto> PyInt 5]\<rparr>
     (PyStr ''customTag'')
     = Return \<lparr>dict = [''_unspecified_names'' \<mapsto> PyList [PyStr ''customTag'']]\<rparr>"
    by (auto simp: MetaDataTags_remove_def dict_delitem_def get_unspecified_names_def
        fun_eq_iff)
  have "\<exists>n names'. PyStr ''customTag'' = PyStr n
           \<and> dict \<lparr>dict = [''_unspecified_names'' \<mapsto> PyList [PyStr ''customTag''],
              ''customTag'' \<mapsto> PyInt 5]\<rparr> n \<noteq> None
           \<and> dict \<lparr>dict = [''_unspecified_names'' \<mapsto> PyList [PyStr ''customTag'']]\<rparr> n = None
           \<and> dict \<lparr>dict = [''_unspecified_names'' \<mapsto> PyList [PyStr ''customTag'']]\<rparr>
                ''_unspecified_names'' = Some (PyList [PyStr ''customTag''])
           \<and> PyStr n \<in> set [PyStr ''customTag'']
           \<and> dict (run_tag_ops
                \<lparr>dict = [''_unspecified_names'' \<mapsto> PyList [PyStr ''customTag'']]\<rparr>
                [Add (PyStr ''other'') PyNone, Remove (PyStr ''other''),
                 Remove (PyStr ''customTag'')]) ''_unspecified_names'' = Some (PyList names')
           \<and> prefix [PyStr ''customTag''] names'
           \<and> PyStr n \<in> set names'"
    by (rule remove_never_unregisters [OF _ _ r]) simp_all
  with r show ?thesis by auto
qed


section \<open>Properties of validation results\<close>

lemma locations_add:
  "set (locations (ValidationResult_add r l c)) = insert l (set (locations r))"
  by (auto simp: ValidationResult_add_def locations_def)

lemma issues_at_add:
  "issues_at (ValidationResult_add r l c) l' =
     (if l' = l \<and> l \<notin> set (locations r) then issues_at r l' @ [c] else issues_at r l')"
  by (auto simp: ValidationResult_add_def issues_at_def)

lemma issues_at_empty: "issues_at r l = [] \<longleftrightarrow> l \<notin> set (locations r)"
  by (induction r) (auto simp: issues_at_def locations_def)

lemma issues_at_fresh: "l \<notin> set (locations r) \<Longrightarrow> issues_at r l = []"
  by (simp add: issues_at_empty)

lemma mem_issues_at: "(l, c) \<in> set r \<longleftrightarrow> c \<in> set (issues_at r l)"
  by (induction r) (auto simp: issues_at_def)

lemma set_add:
  "set (ValidationResult_add r l c) =
     (if l \<in> set (locations r) then set r else insert (l, c) (set r))"
  by (simp add: ValidationResult_add_def)

lemma locations_add_all:
  "set (locations (add_all reports r)) = set (locations r) \<union> fst ` set reports"
  by (induction reports r rule: add_all.induct) (auto simp: locations_add)

lemma issues_at_add_all_reported:
  "l \<in> set (locations r) \<Longrightarrow> issues_at (add_all reports r) l = issues_at r l"
  by (induction reports r rule: add_all.induct) (auto simp: locations_add issues_at_add)

text \<open>
  What a sequence of reports leaves at a location where nothing was reported before,
  when all its reports for that location carry one code.
\<close>

lemma issues_at_add_all_fresh:
  "l \<notin> set (locations r) \<Longrightarrow> \<forall>c'. (l, c') \<in> set reports \<longrightarrow> c' = c \<Longrightarrow>
   issues_at (add_all reports r) l = (if (l, c) \<in> set reports then [c] else [])"
proof (induction reports r rule: add_all.induct)
  case (1 result)
  then show ?case by (simp add: issues_at_empty)
next
  case (2 location key reports result)
  show ?case
  proof (cases "location = l")
    case True
    with 2 have k: "key = c" by simp
    have "issues_at (add_all reports (ValidationResult_add result l c)) l
          = issues_at (ValidationResult_add result l c) l"
      by (rule issues_at_add_all_reported) (simp add: locations_add)
    also have "\<dots> = [c]"
      using 2(2) by (simp add: issues_at_add issues_at_fresh)
    finally show ?thesis using True k by simp
  next
    case False
    with 2 show ?thesis by (simp add: locations_add)
  qed
qed

lemma set_add_all_subset: "set (add_all reports r) \<subseteq> set r \<union> set reports"
  by (induction reports r rule: add_all.induct) (auto simp: set_add split: if_splits)

lemma set_add_all_mono: "set r \<subseteq> set (add_all reports r)"
  by (induction reports r rule: add_all.induct) (auto simp: set_add split: if_splits)

lemma add_all_append: "add_all (xs @ ys) r = add_all ys (add_all xs r)"
  by (induction xs r rule: add_all.induct) simp_all

lemma issues_at_super_reported:
  "l \<in> set (locations r) \<Longrightarrow> issues_at (super_validate base r) l = issues_at r l"
  by (simp add: super_validate_def issues_at_add_all_reported)

lemma set_super_subset: "set (super_validate base r) \<subseteq> set r \<union> set base"
  by (simp add: super_validate_def set_add_all_subset)

lemma set_super_mono: "set r \<subseteq> set (super_validate base r)"
  by (simp add: super_validate_def set_add_all_mono)


section \<open>Properties of the probe rules\<close>

lemma locations_sourceLabels_rule:
  "set (locations (sourceLabels_rule check self r)) =
     insert (probe_location self @ ''/sourceLabels'') (set (locations r))"
  by (simp add: sourceLabels_rule_def locations_add split: option.splits)

lemma issues_at_sourceLabels_rule:
  "l \<noteq> probe_location self @ ''/sourceLabels'' \<Longrightarrow>
   issues_at (sourceLabels_rule check self r) l = issues_at r l"
  by (simp add: sourceLabels_rule_def issues_at_add split: option.splits)

lemma locations_positions_rule:
  "set (locations (positions_rule self r)) =
     {probe_location self @ ''/sourcePos2D'', probe_location self @ ''/detectorPos2D'',
      probe_location self @ ''/sourcePos3D'', probe_location self @ ''/detectorPos3D''}
     \<union> set (locations r)"
  by (auto simp: positions_rule_def locations_add Let_def)

lemma issues_at_positions_rule_other:
  "l \<notin> {probe_location self @ ''/sourcePos2D'', probe_location self @ ''/detectorPos2D'',
         probe_location self @ ''/sourcePos3D'', probe_location self @ ''/detectorPos3D''} \<Longrightarrow>
   issues_at (positions_rule self r) l = issues_at r l"
  by (simp add: positions_rule_def issues_at_add Let_def)

lemma locations_coordinateSystem_rule:
  "set (locations r) \<subseteq> set (locations (coordinateSystem_rule recognized self r))"
  by (auto simp: coordinateSystem_rule_def locations_add Let_def split: option.splits)

lemma issues_at_coordinateSystem_rule_other:
  "l \<notin> {probe_location self @ ''/coordinateSystem'',
         probe_location self @ ''/coordinateSystemDescription''} \<Longrightarrow>
   issues_at (coordinateSystem_rule recognized self r) l = issues_at r l"
  by (simp add: coordinateSystem_rule_def issues_at_add Let_def split: option.splits)

text \<open>
  A position array's verdict, once given, survives the rest of \<^verbatim>\<open>Probe._validate\<close>:
  the coordinate-system rule reports elsewhere and the base pass cannot replace it.
\<close>

lemma issues_at_Probe_validate_position:
  assumes "l \<in> {probe_location self @ ''/sourcePos2D'', probe_location self @ ''/detectorPos2D'',
                probe_location self @ ''/sourcePos3D'', probe_location self @ ''/detectorPos3D''}"
  shows "issues_at (Probe_validate base check recognized self r) l =
           issues_at (positions_rule self (sourceLabels_rule check self r)) l"
proof -
  let ?r2 = "positions_rule self (sourceLabels_rule check self r)"
  have "l \<in> set (locations ?r2)"
    using assms by (auto simp: locations_positions_rule)
  then have "l \<in> set (locations (coordinateSystem_rule recognized self ?r2))"
    using locations_coordinateSystem_rule by blast
  then have "issues_at (Probe_validate base check recognized self r) l =
               issues_at (coordinateSystem_rule recognized self ?r2) l"
    unfolding Probe_validate_def by (rule issues_at_super_reported)
  also have "\<dots> = issues_at ?r2 l"
    using assms by (intro issues_at_coordinateSystem_rule_other) auto
  finally show ?thesis .
qed


lemma set_sourceLabels_rule:
  "(l, c) \<in> set (sourceLabels_rule check self r) \<Longrightarrow>
   l \<noteq> probe_location self @ ''/sourceLabels'' \<Longrightarrow> (l, c) \<in> set r"
  by (auto simp: sourceLabels_rule_def set_add split: option.splits if_splits)

lemma set_positions_rule:
  "(l, c) \<in> set (positions_rule self r) \<Longrightarrow>
   l \<notin> {probe_location self @ ''/sourcePos2D'', probe_location self @ ''/detectorPos2D'',
         probe_location self @ ''/sourcePos3D'', probe_location self @ ''/detectorPos3D''} \<Longrightarrow>
   (l, c) \<in> set r"
  by (simp add: mem_issues_at issues_at_positions_rule_other)

text \<open>
  The coordinate-system rule on a result that has nothing yet at its two locations: what
  it leaves there.
\<close>

lemma issues_at_coordinateSystem_rule_name:
  "probe_location self @ ''/coordinateSystem'' \<notin> set (locations r) \<Longrightarrow>
   issues_at (coordinateSystem_rule recognized self r) (probe_location self @ ''/coordinateSystem'')
     = (case coordinateSystem self of
          None \<Rightarrow> []
        | Some name \<Rightarrow>
            if name \<notin> set recognized then [''UNRECOGNIZED_COORDINATE_SYSTEM''] else [])"
  by (simp add: coordinateSystem_rule_def issues_at_add issues_at_fresh Let_def
      split: option.splits)

lemma issues_at_coordinateSystem_rule_description:
  "probe_location self @ ''/coordinateSystemDescription'' \<notin> set (locations r) \<Longrightarrow>
   issues_at (coordinateSystem_rule recognized self r)
       (probe_location self @ ''/coordinateSystemDescription'')
     = (case coordinateSystem self of
          None \<Rightarrow> []
        | Some name \<Rightarrow>
            if name \<notin> set recognized \<and> coordinateSystemDescription self = None
            then [''NO_COORDINATE_SYSTEM_DESCRIPTION''] else [])"
  by (simp add: coordinateSystem_rule_def issues_at_add issues_at_fresh locations_add Let_def
      split: option.splits)

lemma locations_before_coordinateSystem_rule:
  "l \<in> {probe_location self @ ''/coordinateSystem'',
         probe_location self @ ''/coordinateSystemDescription''} \<Longrightarrow>
   l \<notin> set (locations r) \<Longrightarrow>
   l \<notin> set (locations (positions_rule self (sourceLabels_rule check self r)))"
  by (auto simp: locations_positions_rule locations_sourceLabels_rule)

text \<open>
  Membership of a pair in the result of \<^verbatim>\<open>Probe._validate\<close>, for a location that the
  incoming result has nothing at and a pair the base pass does not report.
\<close>

lemma mem_Probe_validate_coordinate:
  assumes "l \<in> {probe_location self @ ''/coordinateSystem'',
                probe_location self @ ''/coordinateSystemDescription''}"
    and "l \<notin> set (locations r)"
    and "(l, c) \<notin> set base"
  shows "(l, c) \<in> set (Probe_validate base check recognized self r) \<longleftrightarrow>
         c \<in> set (issues_at (coordinateSystem_rule recognized self
                    (positions_rule self (sourceLabels_rule check self r))) l)"
proof -
  let ?r3 = "coordinateSystem_rule recognized self
               (positions_rule self (sourceLabels_rule check self r))"
  have "(l, c) \<in> set (super_validate base ?r3) \<longleftrightarrow> (l, c) \<in> set ?r3"
    using set_super_subset [of base ?r3] set_super_mono [of ?r3 base] assms(3) by auto
  then show ?thesis
    by (simp add: Probe_validate_def mem_issues_at [of l c ?r3])
qed


section \<open>Probe validation\<close>

text \<open>
  C4. A probe whose two 2D position arrays are both present gets \<^verbatim>\<open>OK\<close> at
  \<^verbatim>\<open>/sourcePos2D\<close> and \<^verbatim>\<open>/detectorPos2D\<close> and \<^verbatim>\<open>OPTIONAL_DATASET_MISSING\<close> at
  \<^verbatim>\<open>/sourcePos3D\<close> and \<^verbatim>\<open>/detectorPos3D\<close>, whatever the 3D fields hold. Each is
  the only code at its location in the result of \<^verbatim>\<open>Probe._validate\<close>, for any base
  pass, given a result that had nothing at these four locations on entry.
\<close>

theorem Probe_validate_2D_complete:
  assumes "sourcePos2D self \<noteq> None" and "detectorPos2D self \<noteq> None"
    and "probe_location self @ ''/sourcePos2D'' \<notin> set (locations result)"
    and "probe_location self @ ''/detectorPos2D'' \<notin> set (locations result)"
    and "probe_location self @ ''/sourcePos3D'' \<notin> set (locations result)"
    and "probe_location self @ ''/detectorPos3D'' \<notin> set (locations result)"
  shows "issues_at (Probe_validate base check recognized self result)
           (probe_location self @ ''/sourcePos2D'') = [''OK'']
       \<and> issues_at (Probe_validate base check recognized self result)
           (probe_location self @ ''/detectorPos2D'') = [''OK'']
       \<and> issues_at (Probe_validate base check recognized self result)
           (probe_location self @ ''/sourcePos3D'') = [''OPTIONAL_DATASET_MISSING'']
       \<and> issues_at (Probe_validate base check recognized self result)
           (probe_location self @ ''/detectorPos3D'') = [''OPTIONAL_DATASET_MISSING'']"
  using assms
  by (simp add: issues_at_Probe_validate_position positions_rule_def Let_def issues_at_add
      locations_add locations_sourceLabels_rule issues_at_sourceLabels_rule issues_at_fresh)

theorem Probe_validate_2D_complete_witness:
  "issues_at (Probe_validate [(''/nirs/probe/sourcePos3D'', ''OK'')] (\<lambda>a. Some ''OK'') []
       \<lparr>probe_location = ''/nirs/probe'', sourceLabels = None, detectorLabels = None,
        wavelengths = None, sourcePos2D = Some (NDArray [2, 2]),
        detectorPos2D = Some (NDArray [3, 2]), sourcePos3D = Some (NDArray [2, 3]),
        detectorPos3D = None, coordinateSystem = None, coordinateSystemDescription = None\<rparr> [])
     ''/nirs/probe/sourcePos2D'' = [''OK'']
   \<and> issues_at (Probe_validate [(''/nirs/probe/sourcePos3D'', ''OK'')] (\<lambda>a. Some ''OK'') []
       \<lparr>probe_location = ''/nirs/probe'', sourceLabels = None, detectorLabels = None,
        wavelengths = None, sourcePos2D = Some (NDArray [2, 2]),
        detectorPos2D = Some (NDArray [3, 2]), sourcePos3D = Some (NDArray [2, 3]),
        detectorPos3D = None, coordinateSystem = None, coordinateSystemDescription = None\<rparr> [])
     ''/nirs/probe/sourcePos3D'' = [''OPTIONAL_DATASET_MISSING'']"
  using Probe_validate_2D_complete
    [of "\<lparr>probe_location = ''/nirs/probe'', sourceLabels = None, detectorLabels = None,
        wavelengths = None, sourcePos2D = Some (NDArray [2, 2]),
        detectorPos2D = Some (NDArray [3, 2]), sourcePos3D = Some (NDArray [2, 3]),
        detectorPos3D = None, coordinateSystem = None, coordinateSystemDescription = None\<rparr>"
        "[]" "[(''/nirs/probe/sourcePos3D'', ''OK'')]" "\<lambda>a. Some ''OK''" "[]"]
  by (simp add: locations_def)

text \<open>
  C5. A probe with neither the 2D pair nor the 3D pair complete gets a verdict for each
  of the four position arrays on its own: \<^verbatim>\<open>OK\<close> if the array is present,
  \<^verbatim>\<open>REQUIRED_DATASET_MISSING\<close> if it is absent.
\<close>

theorem Probe_validate_incomplete:
  assumes "\<not> (sourcePos2D self \<noteq> None \<and> detectorPos2D self \<noteq> None)"
    and "\<not> (sourcePos3D self \<noteq> None \<and> detectorPos3D self \<noteq> None)"
    and "probe_location self @ ''/sourcePos2D'' \<notin> set (locations result)"
    and "probe_location self @ ''/detectorPos2D'' \<notin> set (locations result)"
    and "probe_location self @ ''/sourcePos3D'' \<notin> set (locations result)"
    and "probe_location self @ ''/detectorPos3D'' \<notin> set (locations result)"
  shows "issues_at (Probe_validate base check recognized self result)
           (probe_location self @ ''/sourcePos2D'')
           = [if sourcePos2D self \<noteq> None then ''OK'' else ''REQUIRED_DATASET_MISSING'']
       \<and> issues_at (Probe_validate base check recognized self result)
           (probe_location self @ ''/detectorPos2D'')
           = [if detectorPos2D self \<noteq> None then ''OK'' else ''REQUIRED_DATASET_MISSING'']
       \<and> issues_at (Probe_validate base check recognized self result)
           (probe_location self @ ''/sourcePos3D'')
           = [if sourcePos3D self \<noteq> None then ''OK'' else ''REQUIRED_DATASET_MISSING'']
       \<and> issues_at (Probe_validate base check recognized self result)
           (probe_location self @ ''/detectorPos3D'')
           = [if detectorPos3D self \<noteq> None then ''OK'' else ''REQUIRED_DATASET_MISSING'']"
proof -
  have "\<not> (sourcePos2D self \<noteq> None \<and> detectorPos2D self \<noteq> None)
        \<and> \<not> (sourcePos3D self \<noteq> None \<and> detectorPos3D self \<noteq> None)"
    using assms(1,2) by simp
  then have "positions_rule self (sourceLabels_rule check self result) =
      ValidationResult_add
        (ValidationResult_add
          (ValidationResult_add
            (ValidationResult_add (sourceLabels_rule check self result)
              (probe_location self @ ''/sourcePos2D'')
              (if sourcePos2D self \<noteq> None then ''OK'' else ''REQUIRED_DATASET_MISSING''))
            (probe_location self @ ''/detectorPos2D'')
            (if detectorPos2D self \<noteq> None then ''OK'' else ''REQUIRED_DATASET_MISSING''))
          (probe_location self @ ''/sourcePos3D'')
          (if sourcePos3D self \<noteq> None then ''OK'' else ''REQUIRED_DATASET_MISSING''))
        (probe_location self @ ''/detectorPos3D'')
        (if detectorPos3D self \<noteq> None then ''OK'' else ''REQUIRED_DATASET_MISSING'')"
    unfolding positions_rule_def Let_def by (simp only: if_False) simp
  then show ?thesis
    using assms(3-6)
    by (simp add: issues_at_Probe_validate_position issues_at_add
      locations_add locations_sourceLabels_rule issues_at_sourceLabels_rule issues_at_fresh)
qed


theorem Probe_validate_incomplete_witness:
  "issues_at (Probe_validate [(''/nirs/probe/detectorPos2D'', ''OK'')] (\<lambda>a. None) []
       \<lparr>probe_location = ''/nirs/probe'', sourceLabels = Some (NDArray [2]),
        detectorLabels = None, wavelengths = None, sourcePos2D = Some (NDArray [2, 2]),
        detectorPos2D = None, sourcePos3D = None, detectorPos3D = Some (NDArray [3, 3]),
        coordinateSystem = None, coordinateSystemDescription = None\<rparr> [])
     ''/nirs/probe/sourcePos2D'' = [''OK'']
   \<and> issues_at (Probe_validate [(''/nirs/probe/detectorPos2D'', ''OK'')] (\<lambda>a. None) []
       \<lparr>probe_location = ''/nirs/probe'', sourceLabels = Some (NDArray [2]),
        detectorLabels = None, wavelengths = None, sourcePos2D = Some (NDArray [2, 2]),
        detectorPos2D = None, sourcePos3D = None, detectorPos3D = Some (NDArray [3, 3]),
        coordinateSystem = None, coordinateSystemDescription = None\<rparr> [])
     ''/nirs/probe/detectorPos2D'' = [''REQUIRED_DATASET_MISSING'']"
  using Probe_validate_incomplete
    [of "\<lparr>probe_location = ''/nirs/probe'', sourceLabels = Some (NDArray [2]),
        detectorLabels = None, wavelengths = None, sourcePos2D = Some (NDArray [2, 2]),
        detectorPos2D = None, sourcePos3D = None, detectorPos3D = Some (NDArray [3, 3]),
        coordinateSystem = None, coordinateSystemDescription = None\<rparr>"
        "[]" "[(''/nirs/probe/detectorPos2D'', ''OK'')]" "\<lambda>a. None" "[]"]
  by (simp add: locations_def)

text \<open>
  C7, as stated: an unrecognized coordinate-system name gets
  \<^verbatim>\<open>NO_COORDINATE_SYSTEM_DESCRIPTION\<close> exactly when no non-empty description comes
  with it. The code tests the description for \<^verbatim>\<open>None\<close> only, so a description that is
  present and empty suppresses the diagnostic.
\<close>

theorem empty_description_not_flagged:
  "coordinateSystem \<lparr>probe_location = ''/nirs/probe'', sourceLabels = None,
       detectorLabels = None, wavelengths = None, sourcePos2D = None, detectorPos2D = None,
       sourcePos3D = None, detectorPos3D = None, coordinateSystem = Some ''Other'',
       coordinateSystemDescription = Some ''''\<rparr> = Some ''Other''
   \<and> ''Other'' \<notin> set [''MNI152NLin2009bAsym'', ''MNIColin27'']
   \<and> coordinateSystemDescription \<lparr>probe_location = ''/nirs/probe'', sourceLabels = None,
       detectorLabels = None, wavelengths = None, sourcePos2D = None, detectorPos2D = None,
       sourcePos3D = None, detectorPos3D = None, coordinateSystem = Some ''Other'',
       coordinateSystemDescription = Some ''''\<rparr> = Some ''''
   \<and> (''/nirs/probe/coordinateSystem'', ''UNRECOGNIZED_COORDINATE_SYSTEM'')
       \<in> set (Probe_validate [] (\<lambda>a. Some ''OK'') [''MNI152NLin2009bAsym'', ''MNIColin27'']
           \<lparr>probe_location = ''/nirs/probe'', sourceLabels = None,
            detectorLabels = None, wavelengths = None, sourcePos2D = None, detectorPos2D = None,
            sourcePos3D = None, detectorPos3D = None, coordinateSystem = Some ''Other'',
            coordinateSystemDescription = Some ''''\<rparr> [])
   \<and> (''/nirs/probe/coordinateSystemDescription'', ''NO_COORDINATE_SYSTEM_DESCRIPTION'')
       \<notin> set (Probe_validate [] (\<lambda>a. Some ''OK'') [''MNI152NLin2009bAsym'', ''MNIColin27'']
           \<lparr>probe_location = ''/nirs/probe'', sourceLabels = None,
            detectorLabels = None, wavelengths = None, sourcePos2D = None, detectorPos2D = None,
            sourcePos3D = None, detectorPos3D = None, coordinateSystem = Some ''Other'',
            coordinateSystemDescription = Some ''''\<rparr> [])"
  by (simp add: Probe_validate_def coordinateSystem_rule_def positions_rule_def
      sourceLabels_rule_def super_validate_def ValidationResult_add_def locations_def Let_def)

text \<open>
  C7, amended: in the result of \<^verbatim>\<open>Probe._validate\<close>,
  \<^verbatim>\<open>UNRECOGNIZED_COORDINATE_SYSTEM\<close> is at \<^verbatim>\<open>/coordinateSystem\<close> exactly when the
  coordinate system is present and not among the recognized names, and
  \<^verbatim>\<open>NO_COORDINATE_SYSTEM_DESCRIPTION\<close> is at \<^verbatim>\<open>/coordinateSystemDescription\<close>
  exactly when, in addition, the description is absent. A recognized or absent coordinate
  system yields neither. This is for a result that had nothing at the two locations on
  entry and a base pass that does not itself report these two diagnostics.
\<close>

theorem Probe_validate_coordinateSystem:
  assumes "probe_location self @ ''/coordinateSystem'' \<notin> set (locations result)"
    and "probe_location self @ ''/coordinateSystemDescription'' \<notin> set (locations result)"
    and "(probe_location self @ ''/coordinateSystem'', ''UNRECOGNIZED_COORDINATE_SYSTEM'')
           \<notin> set base"
    and "(probe_location self @ ''/coordinateSystemDescription'',
           ''NO_COORDINATE_SYSTEM_DESCRIPTION'') \<notin> set base"
  shows "((probe_location self @ ''/coordinateSystem'', ''UNRECOGNIZED_COORDINATE_SYSTEM'')
            \<in> set (Probe_validate base check recognized self result)
          \<longleftrightarrow> (\<exists>name. coordinateSystem self = Some name \<and> name \<notin> set recognized))
       \<and> ((probe_location self @ ''/coordinateSystemDescription'',
             ''NO_COORDINATE_SYSTEM_DESCRIPTION'')
            \<in> set (Probe_validate base check recognized self result)
          \<longleftrightarrow> (\<exists>name. coordinateSystem self = Some name \<and> name \<notin> set recognized)
              \<and> coordinateSystemDescription self = None)"
proof -
  let ?r2 = "positions_rule self (sourceLabels_rule check self result)"
  have f1: "probe_location self @ ''/coordinateSystem'' \<notin> set (locations ?r2)"
    using assms(1) by (intro locations_before_coordinateSystem_rule) auto
  have f2: "probe_location self @ ''/coordinateSystemDescription'' \<notin> set (locations ?r2)"
    using assms(2) by (intro locations_before_coordinateSystem_rule) auto
  have a: "(probe_location self @ ''/coordinateSystem'', ''UNRECOGNIZED_COORDINATE_SYSTEM'')
            \<in> set (Probe_validate base check recognized self result)
          \<longleftrightarrow> (\<exists>name. coordinateSystem self = Some name \<and> name \<notin> set recognized)"
    using assms(1,3)
    by (cases "coordinateSystem self")
       (simp_all add: mem_Probe_validate_coordinate issues_at_coordinateSystem_rule_name [OF f1])
  have b: "(probe_location self @ ''/coordinateSystemDescription'',
             ''NO_COORDINATE_SYSTEM_DESCRIPTION'')
            \<in> set (Probe_validate base check recognized self result)
          \<longleftrightarrow> (\<exists>name. coordinateSystem self = Some name \<and> name \<notin> set recognized)
              \<and> coordinateSystemDescription self = None"
    using assms(2,4)
    by (cases "coordinateSystem self")
       (simp_all add: mem_Probe_validate_coordinate
          issues_at_coordinateSystem_rule_description [OF f2])
  from a b show ?thesis by simp
qed

theorem Probe_validate_coordinateSystem_witness:
  "(''/nirs/probe/coordinateSystem'', ''UNRECOGNIZED_COORDINATE_SYSTEM'')
       \<in> set (Probe_validate [(''/nirs/probe/coordinateSystem'', ''OK'')] (\<lambda>a. Some ''OK'')
           [''MNI152NLin2009bAsym'', ''MNIColin27'']
           \<lparr>probe_location = ''/nirs/probe'', sourceLabels = None,
            detectorLabels = None, wavelengths = None, sourcePos2D = None, detectorPos2D = None,
            sourcePos3D = None, detectorPos3D = None, coordinateSystem = Some ''Other'',
            coordinateSystemDescription = None\<rparr> [])
   \<and> (''/nirs/probe/coordinateSystemDescription'', ''NO_COORDINATE_SYSTEM_DESCRIPTION'')
       \<in> set (Probe_validate [(''/nirs/probe/coordinateSystem'', ''OK'')] (\<lambda>a. Some ''OK'')
           [''MNI152NLin2009bAsym'', ''MNIColin27'']
           \<lparr>probe_location = ''/nirs/probe'', sourceLabels = None,
            detectorLabels = None, wavelengths = None, sourcePos2D = None, detectorPos2D = None,
            sourcePos3D = None, detectorPos3D = None, coordinateSystem = Some ''Other'',
            coordinateSystemDescription = None\<rparr> [])"
  using Probe_validate_coordinateSystem
    [of "\<lparr>probe_location = ''/nirs/probe'', sourceLabels = None,
            detectorLabels = None, wavelengths = None, sourcePos2D = None, detectorPos2D = None,
            sourcePos3D = None, detectorPos3D = None, coordinateSystem = Some ''Other'',
            coordinateSystemDescription = None\<rparr>"
        "[]" "[(''/nirs/probe/coordinateSystem'', ''OK'')]" "\<lambda>a. Some ''OK''"
        "[''MNI152NLin2009bAsym'', ''MNIColin27'']"]
  by (simp add: locations_def)



section \<open>Data and stimulus elements\<close>

lemma shape_index_0: "shape_index a 0 = (case shape a of [] \<Rightarrow> Inl IndexError | n # ns \<Rightarrow> Inr n)"
  by (simp add: shape_index_def split: list.splits)

lemma shape_index_1:
  "shape_index a (Suc 0) =
     (case shape a of [] \<Rightarrow> Inl IndexError | [n] \<Rightarrow> Inl IndexError | n # m # ns \<Rightarrow> Inr m)"
  by (simp add: shape_index_def split: list.splits)

lemma ndarray_size_vector: "ndarray_size (NDArray [n]) = n"
  by (simp add: ndarray_size_def)

text \<open>
  The base pass runs first in \<^verbatim>\<open>DataElement._validate\<close> (line 71), and a location
  keeps its first issue. Whatever the base pass has reported at \<^verbatim>\<open>/time\<close> is still
  all there is at \<^verbatim>\<open>/time\<close> when the method is left, by return or by exception.
\<close>

lemma time_verdict_kept:
  assumes "data_location self @ ''/time'' \<in> set (locations (super_validate base result))"
  shows "issues_at (state_after (DataElement_validate base self result))
           (data_location self @ ''/time'')
         = issues_at (super_validate base result) (data_location self @ ''/time'')"
proof (cases "time self")
  case None
  then show ?thesis by (simp add: DataElement_validate_def)
next
  case t: (Some t)
  show ?thesis
  proof (cases "dataTimeSeries self")
    case None
    with t show ?thesis by (simp add: DataElement_validate_def)
  next
    case (Some d)
    with t assms show ?thesis
      by (cases "shape d" rule: list.exhaust; cases "tl (shape d)" rule: list.exhaust)
         (auto simp: DataElement_validate_def shape_index_def Let_def issues_at_add
            locations_add)
  qed
qed

text \<open>
  The comparison of the measurement list with the columns, for a series of at least two
  dimensions and an element whose own location the base pass has left free.
\<close>

lemma measurementList_verdict:
  assumes "time self = Some t" and "dataTimeSeries self = Some d"
    and "shape d = rows # columns # rest"
    and "data_location self \<notin> set (locations (super_validate base result))"
  shows "\<exists>result'. DataElement_validate base self result = Return result'
       \<and> issues_at result' (data_location self)
           = (if length (measurementList self) \<noteq> columns
              then [''INVALID_MEASUREMENTLIST''] else [])"
  using assms
  by (simp add: DataElement_validate_def shape_index_0 shape_index_1 Let_def issues_at_add
      locations_add issues_at_fresh)

text \<open>
  C6. The claim: with time and series present, \<^verbatim>\<open>INVALID_TIME\<close> is added at
  \<^verbatim>\<open>/time\<close> exactly when the length of time differs from the rows of the series,
  and \<^verbatim>\<open>INVALID_MEASUREMENTLIST\<close> at the element's location exactly when the length
  of the measurement list differs from the columns. The second half holds
  (\<open>measurementList_verdict\<close>). The first does not: the method calls
  \<^verbatim>\<open>super()._validate(result)\<close> before it compares, the base pass gives the present
  \<^verbatim>\<open>time\<close> dataset its verdict at \<^verbatim>\<open>/time\<close>, and \<^verbatim>\<open>_add\<close> keeps the first issue
  of a location (\<open>time_verdict_kept\<close>). For a time of 99 samples and a series of shape
  (100, 1) the result holds the base pass's \<^verbatim>\<open>OK\<close> at \<^verbatim>\<open>/time\<close> and no
  \<^verbatim>\<open>INVALID_TIME\<close>; the same comparison on a result with \<^verbatim>\<open>/time\<close> still free
  does add it; and a measurement list of 4 entries against 5 columns is reported.
\<close>

theorem INVALID_TIME_dropped:
  "DataElement_validate
     [(''/nirs/data1/time'', ''OK''), (''/nirs/data1/dataTimeSeries'', ''OK'')]
     \<lparr>data_location = ''/nirs/data1'', time = Some (NDArray [99]),
      dataTimeSeries = Some (NDArray [100, 1]),
      measurementList = [\<lparr>ml_location = ''/nirs/data1/measurementList1'',
        sourceIndex = Some 1, detectorIndex = Some 1, wavelengthIndex = Some 1\<rparr>]\<rparr> []
   = Return [(''/nirs/data1/time'', ''OK''), (''/nirs/data1/dataTimeSeries'', ''OK'')]
   \<and> DataElement_validate []
     \<lparr>data_location = ''/nirs/data1'', time = Some (NDArray [99]),
      dataTimeSeries = Some (NDArray [100, 1]),
      measurementList = [\<lparr>ml_location = ''/nirs/data1/measurementList1'',
        sourceIndex = Some 1, detectorIndex = Some 1, wavelengthIndex = Some 1\<rparr>]\<rparr> []
   = Return [(''/nirs/data1/time'', ''INVALID_TIME'')]
   \<and> DataElement_validate
     [(''/nirs/data1/time'', ''OK''), (''/nirs/data1/dataTimeSeries'', ''OK'')]
     \<lparr>data_location = ''/nirs/data1'', time = Some (NDArray [100]),
      dataTimeSeries = Some (NDArray [100, 5]),
      measurementList = replicate 4 \<lparr>ml_location = ''/nirs/data1/measurementList1'',
        sourceIndex = Some 1, detectorIndex = Some 1, wavelengthIndex = Some 1\<rparr>\<rparr> []
   = Return [(''/nirs/data1/time'', ''OK''), (''/nirs/data1/dataTimeSeries'', ''OK''),
             (''/nirs/data1'', ''INVALID_MEASUREMENTLIST'')]"
  by (simp add: DataElement_validate_def shape_index_def ndarray_size_def
      super_validate_def ValidationResult_add_def locations_def Let_def)

text \<open>
  C9, as stated: \<^verbatim>\<open>DataElement._validate\<close> raises whenever a present
  \<^verbatim>\<open>dataTimeSeries\<close> has fewer than two dimensions. The indexing sits under the test
  that time and series are both present: with time absent the method returns on a
  one-dimensional series, with the base pass's reports as its result.
\<close>

theorem time_absent_no_IndexError:
  "dataTimeSeries \<lparr>data_location = ''/nirs/data1'', time = None,
      dataTimeSeries = Some (NDArray [100]), measurementList = []\<rparr> = Some (NDArray [100])
   \<and> length (shape (NDArray [100])) < 2
   \<and> DataElement_validate
       [(''/nirs/data1/time'', ''REQUIRED_DATASET_MISSING''),
        (''/nirs/data1/dataTimeSeries'', ''INVALID_DATASET_SHAPE'')]
       \<lparr>data_location = ''/nirs/data1'', time = None,
        dataTimeSeries = Some (NDArray [100]), measurementList = []\<rparr> []
     = Return [(''/nirs/data1/time'', ''REQUIRED_DATASET_MISSING''),
               (''/nirs/data1/dataTimeSeries'', ''INVALID_DATASET_SHAPE'')]"
  by (simp add: DataElement_validate_def super_validate_def ValidationResult_add_def
      locations_def)

text \<open>
  C9, amended: \<^verbatim>\<open>StimElement._validate\<close> returns on every element; when the
  comparison with the labels meets data without a second dimension, it catches the
  \<^verbatim>\<open>IndexError\<close> and adds \<^verbatim>\<open>INVALID_DATASET_SHAPE\<close> at \<^verbatim>\<open>/data\<close>, which is
  then the code at that location unless the base pass had reported there.
  \<^verbatim>\<open>DataElement._validate\<close>, when time is present together with a series of fewer
  than two dimensions, raises \<^verbatim>\<open>IndexError\<close> and adds no diagnostic: it leaves the
  result as the base pass, which has given the present time its verdict at
  \<^verbatim>\<open>/time\<close>, left it.
\<close>

theorem validate_without_columns:
  assumes "stim_data stim = Some sd" and "dataLabels stim = Some l"
    and "length (shape sd) < 2"
    and "time self = Some t" and "dataTimeSeries self = Some d"
    and "length (shape d) < 2"
    and "data_location self @ ''/time'' \<in> set (locations (super_validate base_d result_d))"
  shows "returns (StimElement_validate base_s any_stim result_s)
       \<and> StimElement_validate base_s stim result_s
           = Return (ValidationResult_add (super_validate base_s result_s)
                       (stim_location stim @ ''/data'') ''INVALID_DATASET_SHAPE'')
       \<and> issues_at (state_after (StimElement_validate base_s stim result_s))
             (stim_location stim @ ''/data'')
           = (if stim_location stim @ ''/data'' \<in> set (locations (super_validate base_s result_s))
              then issues_at (super_validate base_s result_s) (stim_location stim @ ''/data'')
              else [''INVALID_DATASET_SHAPE''])
       \<and> DataElement_validate base_d self result_d
           = Raise IndexError (super_validate base_d result_d)"
proof -
  have total: "returns (StimElement_validate base_s any_stim result_s)"
    by (auto simp: StimElement_validate_def shape_index_def Let_def
        split: option.splits sum.splits if_splits)
  have "shape sd = [] \<or> (\<exists>n. shape sd = [n])"
    using assms(3) by (cases "shape sd") (auto simp: length_Suc_conv)
  then have stim: "StimElement_validate base_s stim result_s
           = Return (ValidationResult_add (super_validate base_s result_s)
                       (stim_location stim @ ''/data'') ''INVALID_DATASET_SHAPE'')"
    using assms(1,2) by (auto simp: StimElement_validate_def shape_index_1 Let_def)
  have at: "issues_at (state_after (StimElement_validate base_s stim result_s))
             (stim_location stim @ ''/data'')
           = (if stim_location stim @ ''/data'' \<in> set (locations (super_validate base_s result_s))
              then issues_at (super_validate base_s result_s) (stim_location stim @ ''/data'')
              else [''INVALID_DATASET_SHAPE''])"
    by (simp add: stim issues_at_add issues_at_fresh)
  have "shape d = [] \<or> (\<exists>n. shape d = [n])"
    using assms(6) by (cases "shape d") (auto simp: length_Suc_conv)
  then have "DataElement_validate base_d self result_d
           = Raise IndexError (super_validate base_d result_d)"
    using assms(4,5,7)
    by (auto simp: DataElement_validate_def shape_index_0 shape_index_1 Let_def
        ValidationResult_add_def)
  with total stim at show ?thesis by simp
qed

theorem validate_without_columns_witness:
  "StimElement_validate [(''/nirs/stim1/dataLabels'', ''OK'')]
     \<lparr>stim_location = ''/nirs/stim1'', stim_data = Some (NDArray [3]),
      dataLabels = Some (NDArray [3])\<rparr> []
     = Return [(''/nirs/stim1/dataLabels'', ''OK''),
               (''/nirs/stim1/data'', ''INVALID_DATASET_SHAPE'')]
   \<and> DataElement_validate
         [(''/nirs/data1/time'', ''OK''), (''/nirs/data1/dataTimeSeries'', ''INVALID_DATASET_SHAPE'')]
         \<lparr>data_location = ''/nirs/data1'', time = Some (NDArray [99]),
          dataTimeSeries = Some (NDArray [100]), measurementList = []\<rparr> []
       = Raise IndexError
           [(''/nirs/data1/time'', ''OK''), (''/nirs/data1/dataTimeSeries'', ''INVALID_DATASET_SHAPE'')]"
  using validate_without_columns
    [of "\<lparr>stim_location = ''/nirs/stim1'', stim_data = Some (NDArray [3]),
      dataLabels = Some (NDArray [3])\<rparr>" "NDArray [3]" "NDArray [3]"
      "\<lparr>data_location = ''/nirs/data1'', time = Some (NDArray [99]),
        dataTimeSeries = Some (NDArray [100]), measurementList = []\<rparr>"
      "NDArray [99]" "NDArray [100]"
      "[(''/nirs/data1/time'', ''OK''), (''/nirs/data1/dataTimeSeries'', ''INVALID_DATASET_SHAPE'')]"
      "[]" "[(''/nirs/stim1/dataLabels'', ''OK'')]"
      "\<lparr>stim_location = ''/nirs/stim1'', stim_data = Some (NDArray [3]),
      dataLabels = Some (NDArray [3])\<rparr>" "[]"]
  by (simp add: super_validate_def ValidationResult_add_def locations_def)

section \<open>Properties of the cross-reference pass\<close>

lemma check_indices_reports:
  "check_indices ls ld lw ml r = add_all (index_reports ls ld lw ml) r"
  by (simp add: check_indices_def index_reports_def add_all_append Let_def
      split: option.splits)

lemma for_measurementList_reports:
  "for_measurementList ls ld lw mls r = add_all (concat (map (index_reports ls ld lw) mls)) r"
  by (induction mls arbitrary: r) (simp_all add: check_indices_reports add_all_append)

lemma for_data_reports:
  "for_data ls ld lw ds r = add_all (data_reports ls ld lw ds) r"
  by (induction ds arbitrary: r)
     (simp_all add: data_reports_def for_measurementList_reports add_all_append)

lemma for_nirs_reports:
  "sourceLabels_indexable ns \<Longrightarrow>
   for_nirs ns r = Return (add_all (concat (map nirs_reports ns)) r)"
proof (induction ns arbitrary: r)
  case Nil
  show ?case by simp
next
  case (Cons n ns)
  then show ?case
    by (auto simp: sourceLabels_indexable_def nirs_reports_def for_data_reports add_all_append
        split: option.splits sum.splits)
qed

text \<open>The three locations of an entry never coincide with one another's.\<close>

lemma source_detector_neq: "a @ ''/sourceIndex'' \<noteq> b @ ''/detectorIndex''"
proof
  assume "a @ ''/sourceIndex'' = b @ ''/detectorIndex''"
  then have "rev (a @ ''/sourceIndex'') = rev (b @ ''/detectorIndex'')" by (rule arg_cong)
  then show False by simp
qed

lemma source_wavelength_neq: "a @ ''/sourceIndex'' \<noteq> b @ ''/wavelengthIndex''"
proof
  assume "a @ ''/sourceIndex'' = b @ ''/wavelengthIndex''"
  then have "rev (a @ ''/sourceIndex'') = rev (b @ ''/wavelengthIndex'')" by (rule arg_cong)
  then show False by simp
qed

lemma detector_wavelength_neq: "a @ ''/detectorIndex'' \<noteq> b @ ''/wavelengthIndex''"
proof
  assume "a @ ''/detectorIndex'' = b @ ''/wavelengthIndex''"
  then have "rev (a @ ''/detectorIndex'') = rev (b @ ''/wavelengthIndex'')" by (rule arg_cong)
  then show False by simp
qed

lemmas index_location_neq =
  source_detector_neq source_detector_neq [symmetric]
  source_wavelength_neq source_wavelength_neq [symmetric]
  detector_wavelength_neq detector_wavelength_neq [symmetric]

lemma mem_index_reports_source:
  "(loc @ ''/sourceIndex'', c) \<in> set (index_reports ls ld lw ml) \<longleftrightarrow>
     ml_location ml = loc \<and> c = ''INVALID_SOURCE_INDEX''
     \<and> (\<exists>i. sourceIndex ml = Some i \<and> i > int ls)"
  by (cases "sourceIndex ml"; cases "detectorIndex ml"; cases "wavelengthIndex ml")
     (auto simp: index_reports_def index_location_neq)

lemma mem_index_reports_detector:
  "(loc @ ''/detectorIndex'', c) \<in> set (index_reports ls ld lw ml) \<longleftrightarrow>
     ml_location ml = loc \<and> c = ''INVALID_DETECTOR_INDEX''
     \<and> (\<exists>i. detectorIndex ml = Some i \<and> i > int ld)"
  by (cases "sourceIndex ml"; cases "detectorIndex ml"; cases "wavelengthIndex ml")
     (auto simp: index_reports_def index_location_neq)

lemma mem_index_reports_wavelength:
  "(loc @ ''/wavelengthIndex'', c) \<in> set (index_reports ls ld lw ml) \<longleftrightarrow>
     ml_location ml = loc \<and> c = ''INVALID_WAVELENGTH_INDEX''
     \<and> (\<exists>i. wavelengthIndex ml = Some i \<and> i > int lw)"
  by (cases "sourceIndex ml"; cases "detectorIndex ml"; cases "wavelengthIndex ml")
     (auto simp: index_reports_def index_location_neq)

lemma mem_nirs_reports1:
  "(l, c) \<in> set (nirs_reports n) \<longleftrightarrow>
     (\<exists>p ls. probe n = Some p \<and> lenSourceLabels p = Inr ls
        \<and> (\<exists>d \<in> set (data n). \<exists>ml \<in> set (measurementList d).
              (l, c) \<in> set (index_reports ls (lenDetectorLabels p) (lenWavelengths p) ml)))"
proof (cases "probe n")
  case None
  then show ?thesis by (simp add: nirs_reports_def)
next
  case (Some p)
  then show ?thesis
    by (cases "lenSourceLabels p") (auto simp: nirs_reports_def data_reports_def)
qed

lemma mem_nirs_reports:
  "(l, c) \<in> set (concat (map nirs_reports ns)) \<longleftrightarrow>
     (\<exists>n \<in> set ns. \<exists>p ls. probe n = Some p \<and> lenSourceLabels p = Inr ls
        \<and> (\<exists>d \<in> set (data n). \<exists>ml \<in> set (measurementList d).
              (l, c) \<in> set (index_reports ls (lenDetectorLabels p) (lenWavelengths p) ml)))"
  by (simp add: mem_nirs_reports1)


text \<open>
  What the reports of the whole document leave at one location of one entry: the entry
  sits in a data element of an element \<open>n\<close> of \<^verbatim>\<open>nirs\<close> whose probe \<open>p\<close> is present,
  no other entry of the document has its location, and \<open>flag\<close> says when an entry is
  reported at this kind of location.
\<close>

lemma issues_at_cross_reference:
  assumes "n \<in> set ns" and "probe n = Some p" and "lenSourceLabels p = Inr ls"
    and "d \<in> set (data n)" and "ml \<in> set (measurementList d)"
    and unique: "\<forall>n' \<in> set ns. \<forall>d' \<in> set (data n'). \<forall>ml' \<in> set (measurementList d').
                   ml_location ml' = ml_location ml \<longrightarrow> ml' = ml \<and> probe n' = Some p"
    and fresh: "l \<notin> set (locations r)"
    and char: "\<And>ls' ld' lw' ml' c'.
                 (l, c') \<in> set (index_reports ls' ld' lw' ml') \<longleftrightarrow>
                   ml_location ml' = ml_location ml \<and> c' = c \<and> flag ls' ld' lw' ml'"
  shows "issues_at (add_all (concat (map nirs_reports ns)) r) l =
           (if flag ls (lenDetectorLabels p) (lenWavelengths p) ml then [c] else [])"
proof -
  let ?reports = "concat (map nirs_reports ns)"
  have one: "\<forall>c'. (l, c') \<in> set ?reports \<longrightarrow> c' = c"
    unfolding mem_nirs_reports char by blast
  have "(l, c) \<in> set ?reports \<longleftrightarrow> flag ls (lenDetectorLabels p) (lenWavelengths p) ml"
  proof
    assume "(l, c) \<in> set ?reports"
    then obtain n' p' ls' d' ml' where m: "n' \<in> set ns" "probe n' = Some p'"
        "lenSourceLabels p' = Inr ls'" "d' \<in> set (data n')" "ml' \<in> set (measurementList d')"
        "ml_location ml' = ml_location ml"
        "flag ls' (lenDetectorLabels p') (lenWavelengths p') ml'"
      unfolding mem_nirs_reports char by blast
    from unique m(1,4,5,6) have "ml' = ml \<and> probe n' = Some p" by blast
    with m(2,3,7) assms(3) show "flag ls (lenDetectorLabels p) (lenWavelengths p) ml"
      by simp
  next
    assume "flag ls (lenDetectorLabels p) (lenWavelengths p) ml"
    with assms(1-5) show "(l, c) \<in> set ?reports"
      unfolding mem_nirs_reports char by blast
  qed
  with issues_at_add_all_fresh [OF fresh one] show ?thesis by simp
qed

section \<open>Cross-reference validation of the document\<close>

text \<open>
  What the cross-reference pass leaves at the three locations of an entry \<open>ml\<close> when
  the base pass has left them free: the entry belongs to an element of \<^verbatim>\<open>nirs\<close> whose
  probe \<open>p\<close> is present, no \<^verbatim>\<open>sourceLabels\<close> array of the document is without
  dimensions, and no other entry has the location of \<open>ml\<close>. Each index is flagged
  exactly when it is strictly greater than its bound: the first dimension of
  \<^verbatim>\<open>sourceLabels\<close>, the size of \<^verbatim>\<open>detectorLabels\<close>, the size of
  \<^verbatim>\<open>wavelengths\<close>, each 0 for an absent array.
\<close>

lemma index_verdicts_on_free_locations:
  assumes "n \<in> set (nirs self)" and "probe n = Some p"
    and "d \<in> set (data n)" and "ml \<in> set (measurementList d)"
    and "sourceLabels_indexable (nirs self)"
    and "sourceLabels p = None \<and> ls = 0 \<or> (\<exists>rest. sourceLabels p = Some (NDArray (ls # rest)))"
    and "\<forall>n' \<in> set (nirs self). \<forall>d' \<in> set (data n'). \<forall>ml' \<in> set (measurementList d').
           ml_location ml' = ml_location ml \<longrightarrow> ml' = ml \<and> probe n' = Some p"
    and "ml_location ml @ ''/sourceIndex'' \<notin> set (locations (super_validate base result))"
    and "ml_location ml @ ''/detectorIndex'' \<notin> set (locations (super_validate base result))"
    and "ml_location ml @ ''/wavelengthIndex'' \<notin> set (locations (super_validate base result))"
  shows "\<exists>result'. Snirf_validate base self result = Return result'
       \<and> issues_at result' (ml_location ml @ ''/sourceIndex'')
           = (case sourceIndex ml of
                None \<Rightarrow> []
              | Some i \<Rightarrow> if i > int ls then [''INVALID_SOURCE_INDEX''] else [])
       \<and> issues_at result' (ml_location ml @ ''/detectorIndex'')
           = (case detectorIndex ml of
                None \<Rightarrow> []
              | Some i \<Rightarrow>
                  if i > int (case detectorLabels p of
                                None \<Rightarrow> 0
                              | Some labels \<Rightarrow> prod_list (shape labels))
                  then [''INVALID_DETECTOR_INDEX''] else [])
       \<and> issues_at result' (ml_location ml @ ''/wavelengthIndex'')
           = (case wavelengthIndex ml of
                None \<Rightarrow> []
              | Some i \<Rightarrow>
                  if i > int (case wavelengths p of
                                None \<Rightarrow> 0
                              | Some w \<Rightarrow> prod_list (shape w))
                  then [''INVALID_WAVELENGTH_INDEX''] else [])"
proof -
  let ?r = "super_validate base result"
  let ?result' = "add_all (concat (map nirs_reports (nirs self))) ?r"
  have ls: "lenSourceLabels p = Inr ls"
    using assms(6) by (auto simp: lenSourceLabels_def shape_index_def)
  have ld: "lenDetectorLabels p =
              (case detectorLabels p of None \<Rightarrow> 0 | Some labels \<Rightarrow> prod_list (shape labels))"
    by (simp add: lenDetectorLabels_def ndarray_size_def split: option.splits)
  have lw: "lenWavelengths p =
              (case wavelengths p of None \<Rightarrow> 0 | Some w \<Rightarrow> prod_list (shape w))"
    by (simp add: lenWavelengths_def ndarray_size_def split: option.splits)
  have ret: "Snirf_validate base self result = Return ?result'"
    using assms(5) by (simp add: Snirf_validate_def for_nirs_reports)
  have s: "issues_at ?result' (ml_location ml @ ''/sourceIndex'')
           = (if \<exists>i. sourceIndex ml = Some i \<and> i > int ls
              then [''INVALID_SOURCE_INDEX''] else [])"
    using assms(1,2) ls assms(3,4,7,8)
    by (rule issues_at_cross_reference
          [where flag = "\<lambda>ls ld lw ml. \<exists>i. sourceIndex ml = Some i \<and> i > int ls"])
       (rule mem_index_reports_source)
  have d: "issues_at ?result' (ml_location ml @ ''/detectorIndex'')
           = (if \<exists>i. detectorIndex ml = Some i \<and> i > int (lenDetectorLabels p)
              then [''INVALID_DETECTOR_INDEX''] else [])"
    using assms(1,2) ls assms(3,4,7,9)
    by (rule issues_at_cross_reference
          [where flag = "\<lambda>ls ld lw ml. \<exists>i. detectorIndex ml = Some i \<and> i > int ld"])
       (rule mem_index_reports_detector)
  have w: "issues_at ?result' (ml_location ml @ ''/wavelengthIndex'')
           = (if \<exists>i. wavelengthIndex ml = Some i \<and> i > int (lenWavelengths p)
              then [''INVALID_WAVELENGTH_INDEX''] else [])"
    using assms(1,2) ls assms(3,4,7,10)
    by (rule issues_at_cross_reference
          [where flag = "\<lambda>ls ld lw ml. \<exists>i. wavelengthIndex ml = Some i \<and> i > int lw"])
       (rule mem_index_reports_wavelength)
  have "issues_at ?result' (ml_location ml @ ''/sourceIndex'')
           = (case sourceIndex ml of
                None \<Rightarrow> []
              | Some i \<Rightarrow> if i > int ls then [''INVALID_SOURCE_INDEX''] else [])"
    unfolding s by (cases "sourceIndex ml") simp_all
  moreover have "issues_at ?result' (ml_location ml @ ''/detectorIndex'')
           = (case detectorIndex ml of
                None \<Rightarrow> []
              | Some i \<Rightarrow>
                  if i > int (lenDetectorLabels p) then [''INVALID_DETECTOR_INDEX''] else [])"
    unfolding d by (cases "detectorIndex ml") simp_all
  moreover have "issues_at ?result' (ml_location ml @ ''/wavelengthIndex'')
           = (case wavelengthIndex ml of
                None \<Rightarrow> []
              | Some i \<Rightarrow>
                  if i > int (lenWavelengths p) then [''INVALID_WAVELENGTH_INDEX''] else [])"
    unfolding w by (cases "wavelengthIndex ml") simp_all
  ultimately show ?thesis using ret unfolding ld lw by simp
qed

text \<open>
  The base pass runs first in \<^verbatim>\<open>Snirf._validate\<close> (line 231), and a location keeps
  its first issue: where the base pass has reported, the cross-reference pass changes
  nothing.
\<close>

lemma index_verdict_kept:
  assumes "sourceLabels_indexable (nirs self)"
    and "l \<in> set (locations (super_validate base result))"
  shows "\<exists>result'. Snirf_validate base self result = Return result'
       \<and> issues_at result' l = issues_at (super_validate base result) l"
  using assms
  by (simp add: Snirf_validate_def for_nirs_reports issues_at_add_all_reported)

text \<open>
  An element of \<^verbatim>\<open>nirs\<close> without a probe is skipped: none of its entries is checked.
\<close>

lemma for_nirs_no_probe: "probe n = None \<Longrightarrow> for_nirs (n # ns) r = for_nirs ns r"
  by simp

text \<open>
  C3. The claim: an entry's index is flagged with \<^verbatim>\<open>INVALID_SOURCE_INDEX\<close>,
  \<^verbatim>\<open>INVALID_DETECTOR_INDEX\<close> or \<^verbatim>\<open>INVALID_WAVELENGTH_INDEX\<close> exactly when it
  strictly exceeds the size of the probe's collection. The comparison is the claimed
  one (\<open>index_verdicts_on_free_locations\<close>), but its verdict does not reach the result:
  \<^verbatim>\<open>Snirf._validate\<close> calls \<^verbatim>\<open>super()._validate(result)\<close> before the
  cross-reference pass, the base pass gives each present index dataset its verdict at
  the very location the pass reports at, and \<^verbatim>\<open>_add\<close> keeps the first issue of a
  location (\<open>index_verdict_kept\<close>). With two source labels, two detector labels and
  two wavelengths, an entry with the indices 3, 3, 3 keeps the base pass's \<^verbatim>\<open>OK\<close>
  at its three locations and is not flagged; the same pass on a result with these
  locations still free flags the three indices of that entry and none of the entry with
  the indices 2, 2, 2.
\<close>

theorem INVALID_INDEX_dropped:
  "(let document =
      \<lparr>nirs = [\<lparr>probe = Some \<lparr>probe_location = ''/nirs/probe'',
          sourceLabels = Some (NDArray [2]), detectorLabels = Some (NDArray [2]),
          wavelengths = Some (NDArray [2]), sourcePos2D = None, detectorPos2D = None,
          sourcePos3D = None, detectorPos3D = None, coordinateSystem = None,
          coordinateSystemDescription = None\<rparr>,
        data = [\<lparr>data_location = ''/nirs/data1'', time = None, dataTimeSeries = None,
          measurementList =
            [\<lparr>ml_location = ''/nirs/data1/measurementList1'', sourceIndex = Some 2,
              detectorIndex = Some 2, wavelengthIndex = Some 2\<rparr>,
             \<lparr>ml_location = ''/nirs/data1/measurementList2'', sourceIndex = Some 3,
              detectorIndex = Some 3, wavelengthIndex = Some 3\<rparr>]\<rparr>]\<rparr>]\<rparr>;
        base =
          [(''/nirs/data1/measurementList1/sourceIndex'', ''OK''),
           (''/nirs/data1/measurementList1/detectorIndex'', ''OK''),
           (''/nirs/data1/measurementList1/wavelengthIndex'', ''OK''),
           (''/nirs/data1/measurementList2/sourceIndex'', ''OK''),
           (''/nirs/data1/measurementList2/detectorIndex'', ''OK''),
           (''/nirs/data1/measurementList2/wavelengthIndex'', ''OK'')]
    in Snirf_validate base document [] = Return base
       \<and> Snirf_validate [] document []
           = Return [(''/nirs/data1/measurementList2/sourceIndex'', ''INVALID_SOURCE_INDEX''),
                     (''/nirs/data1/measurementList2/detectorIndex'', ''INVALID_DETECTOR_INDEX''),
                     (''/nirs/data1/measurementList2/wavelengthIndex'',
                      ''INVALID_WAVELENGTH_INDEX'')])"
  by (simp add: Snirf_validate_def super_validate_def lenSourceLabels_def lenDetectorLabels_def
      lenWavelengths_def shape_index_def ndarray_size_def check_indices_def
      ValidationResult_add_def locations_def Let_def)


section \<open>Item access on the document\<close>

text \<open>
  C10, as stated: \<^verbatim>\<open>Snirf.__getitem__\<close> never raises. The method guards the item
  access by the membership test and catches nothing, so it raises whenever the store
  answers that it contains the key and then fails to fetch it, as a store does for a
  link whose target is missing.
\<close>

theorem getitem_raises_on_dangling_link:
  "store_contains \<lparr>store_contains = (\<lambda>key. Inr (key = ''link'')),
       store_getitem = (\<lambda>key. (Inl (KeyError key) :: error + nat))\<rparr> ''link'' = Inr True
   \<and> Snirf_getitem
       (Store \<lparr>store_contains = (\<lambda>key. Inr (key = ''link'')),
               store_getitem = (\<lambda>key. (Inl (KeyError key) :: error + nat))\<rparr>) ''link''
     = Inl (KeyError ''link'')"
  by (simp add: Snirf_getitem_def)

text \<open>
  C10, amended: \<^verbatim>\<open>Snirf.__getitem__\<close> returns \<^verbatim>\<open>None\<close> when no store is attached
  and when the store answers that it does not contain the key; it returns the store's
  entry when the store contains the key and the item access succeeds; and it raises only
  what the store's membership test or its item access raises.
\<close>

theorem Snirf_getitem_outcomes:
  "Snirf_getitem EmptyDict key = Inr None
   \<and> (store_contains f key = Inr False \<longrightarrow> Snirf_getitem (Store f) key = Inr None)
   \<and> (store_contains f key = Inr True \<longrightarrow> store_getitem f key = Inr entry \<longrightarrow>
        Snirf_getitem (Store f) key = Inr (Some entry))
   \<and> (Snirf_getitem h key = Inl e \<longrightarrow>
        (\<exists>g. h = Store g \<and> (store_contains g key = Inl e
               \<or> store_contains g key = Inr True \<and> store_getitem g key = Inl e)))"
proof -
  have "Snirf_getitem h key = Inl e \<longrightarrow>
        (\<exists>g. h = Store g \<and> (store_contains g key = Inl e
               \<or> store_contains g key = Inr True \<and> store_getitem g key = Inl e))"
    by (cases h) (auto simp: Snirf_getitem_def split: sum.splits if_splits)
  then show ?thesis by (simp add: Snirf_getitem_def)
qed

theorem Snirf_getitem_outcomes_witness:
  "Snirf_getitem
     (Store \<lparr>store_contains = (\<lambda>key. Inr (key = ''nirs'')),
             store_getitem = (\<lambda>key. (Inr 7 :: error + nat))\<rparr>) ''nirs'' = Inr (Some 7)
   \<and> Snirf_getitem
     (Store \<lparr>store_contains = (\<lambda>key. Inr (key = ''nirs'')),
             store_getitem = (\<lambda>key. (Inr 7 :: error + nat))\<rparr>) ''probe'' = Inr None"
  using Snirf_getitem_outcomes
    [of "''nirs''" "\<lparr>store_contains = (\<lambda>key. Inr (key = ''nirs'')),
             store_getitem = (\<lambda>key. (Inr 7 :: error + nat))\<rparr>" 7 EmptyDict IndexError]
    Snirf_getitem_outcomes
    [of "''probe''" "\<lparr>store_contains = (\<lambda>key. Inr (key = ''nirs'')),
             store_getitem = (\<lambda>key. (Inr 7 :: error + nat))\<rparr>" 7 EmptyDict IndexError]
  by (simp add: Snirf_getitem_def)


end
